theory Spec2Isabelle
  imports Complex_Main
begin

section \<open>Market data and order structures (sys.cpp)\<close>

text \<open>
  A \<^verbatim>\<open>double\<close> is modelled as a \<^typ>\<open>real\<close>: the finite values, computed exactly.
  Rounding error, NaN and the infinities are outside the model. A \<^verbatim>\<open>size_t\<close> is a
  \<^typ>\<open>nat\<close> (the one wrapping subtraction of the source is written out where it
  occurs), a \<^verbatim>\<open>std::chrono::nanoseconds\<close> an \<^typ>\<open>int\<close>, a \<^verbatim>\<open>std::string\<close> a
  \<^typ>\<open>string\<close>, a \<^verbatim>\<open>std::deque\<close> a list with its front at the head, and a
  \<^verbatim>\<open>std::unordered_map\<close> a partial map.
\<close>

record Quote =
  quote_symbol :: string
  bid :: real
  ask :: real
  bid_size :: nat
  ask_size :: nat
  quote_timestamp :: int

record Trade =
  trade_symbol :: string
  trade_price :: real
  trade_quantity :: nat
  trade_is_buy :: bool
  trade_timestamp :: int

record Order =
  order_id :: string
  symbol :: string
  price :: real
  quantity :: nat
  is_buy :: bool
  timestamp :: int
  status :: string

section \<open>Conditional order types (ordtyp.cpp)\<close>

record BaseOrder =
  base_order_id :: string
  base_symbol :: string
  base_is_buy :: bool
  base_quantity :: real
  base_timestamp :: int

record LimitOrder = BaseOrder +
  lo_limit_price :: real

record StopOrder = BaseOrder +
  so_stop_price :: real

record StopLimitOrder = BaseOrder +
  stop_price :: real
  limit_price :: real
  stop_triggered :: bool

definition LimitOrder_should_trigger :: "LimitOrder \<Rightarrow> Quote \<Rightarrow> bool" where
  "LimitOrder_should_trigger ord q =
     (if base_is_buy ord then ask q \<le> lo_limit_price ord
      else bid q \<ge> lo_limit_price ord)"

definition StopOrder_should_trigger :: "StopOrder \<Rightarrow> Quote \<Rightarrow> bool" where
  "StopOrder_should_trigger ord q =
     (if base_is_buy ord then ask q \<ge> so_stop_price ord
      else bid q \<le> so_stop_price ord)"

text \<open>
  \<^verbatim>\<open>StopLimitOrder::should_trigger\<close> writes the member \<^verbatim>\<open>stop_triggered\<close>; the model
  returns the answer together with the order after the call.
\<close>

definition StopLimitOrder_should_trigger ::
  "StopLimitOrder \<Rightarrow> Quote \<Rightarrow> bool \<times> StopLimitOrder" where
  "StopLimitOrder_should_trigger ord q =
     (if \<not> stop_triggered ord then
        (if base_is_buy ord
         then (False, ord\<lparr>stop_triggered := (ask q \<ge> stop_price ord)\<rparr>)
         else (False, ord\<lparr>stop_triggered := (bid q \<le> stop_price ord)\<rparr>))
      else
        (if base_is_buy ord then (ask q \<le> limit_price ord, ord)
         else (bid q \<ge> limit_price ord, ord)))"

text \<open>A sequence of calls on one order object: the answers in call order, and the
  order after the last call.\<close>

fun should_trigger_calls ::
  "StopLimitOrder \<Rightarrow> Quote list \<Rightarrow> bool list \<times> StopLimitOrder" where
  "should_trigger_calls ord [] = ([], ord)"
| "should_trigger_calls ord (q # qs) =
     (case StopLimitOrder_should_trigger ord q of
        (r, ord') \<Rightarrow>
          (case should_trigger_calls ord' qs of (rs, ord'') \<Rightarrow> (r # rs, ord'')))"

section \<open>Lock-free queue (sys.cpp, LockFreeQueue)\<close>

text \<open>
  The ring of \<^verbatim>\<open>QUEUE_SIZE\<close> slots with its two indices, as one thread sees it: the
  model is sequential, each \<^verbatim>\<open>push\<close> and \<^verbatim>\<open>pop\<close> running to completion. \<^verbatim>\<open>pop\<close>
  returns \<^verbatim>\<open>false\<close> or writes the item through its reference argument; the model
  returns \<open>None\<close> or \<open>Some item\<close>.
\<close>

definition QUEUE_SIZE :: nat where
  "QUEUE_SIZE = 1024"

record 'a LockFreeQueue =
  buffer :: "'a list"
  head :: nat
  tail :: nat

text \<open>A freshly constructed queue: every slot holds the default-constructed \<open>d\<close>.\<close>

definition LockFreeQueue_init :: "'a \<Rightarrow> 'a LockFreeQueue" where
  "LockFreeQueue_init d = \<lparr>buffer = replicate QUEUE_SIZE d, head = 0, tail = 0\<rparr>"

definition push :: "'a LockFreeQueue \<Rightarrow> 'a \<Rightarrow> bool \<times> 'a LockFreeQueue" where
  "push q item =
     (let current_tail = tail q;
          next_tail = (current_tail + 1) mod QUEUE_SIZE
      in if next_tail = head q then (False, q)
         else (True, q\<lparr>buffer := (buffer q)[current_tail := item], tail := next_tail\<rparr>))"

definition pop :: "'a LockFreeQueue \<Rightarrow> 'a option \<times> 'a LockFreeQueue" where
  "pop q =
     (let current_head = head q
      in if current_head = tail q then (None, q)
         else (Some (buffer q ! current_head),
               q\<lparr>head := (current_head + 1) mod QUEUE_SIZE\<rparr>))"

text \<open>A producer and a consumer working on one queue: the calls in the order they
  complete, and what each call reported.\<close>

datatype 'a queue_op = Push 'a | Pop

datatype 'a queue_event = Accepted 'a | Full 'a | Popped 'a | Empty

fun run_queue ::
  "'a LockFreeQueue \<Rightarrow> 'a queue_op list \<Rightarrow> 'a queue_event list \<times> 'a LockFreeQueue" where
  "run_queue q [] = ([], q)"
| "run_queue q (Push x # ops) =
     (case push q x of
        (ok, q') \<Rightarrow>
          (case run_queue q' ops of
             (evs, q'') \<Rightarrow> ((if ok then Accepted x else Full x) # evs, q'')))"
| "run_queue q (Pop # ops) =
     (case pop q of
        (r, q') \<Rightarrow>
          (case run_queue q' ops of
             (evs, q'') \<Rightarrow>
               ((case r of Some x \<Rightarrow> Popped x | None \<Rightarrow> Empty) # evs, q'')))"

fun accepted_items :: "'a queue_event list \<Rightarrow> 'a list" where
  "accepted_items [] = []"
| "accepted_items (Accepted x # evs) = x # accepted_items evs"
| "accepted_items (_ # evs) = accepted_items evs"

fun popped_items :: "'a queue_event list \<Rightarrow> 'a list" where
  "popped_items [] = []"
| "popped_items (Popped x # evs) = x # popped_items evs"
| "popped_items (_ # evs) = popped_items evs"

text \<open>The indices stay inside the ring, and the items waiting in it are those from
  \<open>head\<close> up to \<open>tail\<close>, oldest first.\<close>

definition queue_wf :: "'a LockFreeQueue \<Rightarrow> bool" where
  "queue_wf q \<longleftrightarrow>
     length (buffer q) = QUEUE_SIZE \<and> head q < QUEUE_SIZE \<and> tail q < QUEUE_SIZE"

definition queue_count :: "'a LockFreeQueue \<Rightarrow> nat" where
  "queue_count q = (tail q + QUEUE_SIZE - head q) mod QUEUE_SIZE"

definition queue_contents :: "'a LockFreeQueue \<Rightarrow> 'a list" where
  "queue_contents q =
     map (\<lambda>i. buffer q ! ((head q + i) mod QUEUE_SIZE)) [0..<queue_count q]"

section \<open>Risk engine (sys.cpp, AdvancedRiskManager)\<close>

record RiskMetrics =
  gross_position :: real
  net_position :: real
  dollar_exposure :: real
  var_95 :: real
  expected_shortfall :: real
  max_drawdown :: real
  avg_position_duration :: int

record RiskLimits =
  max_gross_position :: real
  max_net_position :: real
  max_dollar_exposure :: real
  var_limit :: real
  es_limit :: real
  max_drawdown_limit :: real
  max_position_duration :: int
  max_order_size :: real
  max_daily_loss :: real
  max_daily_trades :: nat

record PositionTracker =
  position :: real
  vwap :: real
  realized_pnl :: real
  unrealized_pnl :: real
  recent_trades :: "Trade list"
  last_update :: int

record VolatilityCalculator =
  price_history :: "real list"
  returns :: "real list"
  window_size :: nat

text \<open>
  \<^verbatim>\<open>VolatilityCalculator::update\<close>. Both \<^verbatim>\<open>pop_front\<close> calls act on a deque that has
  just received an element. \<^verbatim>\<open>window_size - 1\<close> is a \<^verbatim>\<open>size_t\<close> subtraction and wraps
  at 64 bits. \<^verbatim>\<open>std::log\<close> is \<^term>\<open>ln\<close>; the two agree on a positive quotient of
  prices, which is where the theorems below evaluate it.
\<close>

definition VolatilityCalculator_update ::
  "VolatilityCalculator \<Rightarrow> real \<Rightarrow> VolatilityCalculator" where
  "VolatilityCalculator_update vc p =
     (let ph1 = price_history vc @ [p];
          ph2 = (if length ph1 > window_size vc then tl ph1 else ph1)
      in if length ph2 > 1 then
           (let ret = ln (p / (ph2 ! (length ph2 - 2)));
                rs1 = returns vc @ [ret];
                rs2 = (if length rs1 > (window_size vc + 2 ^ 64 - 1) mod 2 ^ 64
                       then tl rs1 else rs1)
            in vc\<lparr>price_history := ph2, returns := rs2\<rparr>)
         else vc\<lparr>price_history := ph2\<rparr>)"

text \<open>The accumulation loop shared by both estimators: the running \<^verbatim>\<open>sum\<close> and
  \<^verbatim>\<open>sum_sq\<close> over a deque, front to back.\<close>

fun sum_and_squares :: "real list \<Rightarrow> real \<times> real \<Rightarrow> real \<times> real" where
  "sum_and_squares [] acc = acc"
| "sum_and_squares (r # rs) (sum_r, sum_sq) = sum_and_squares rs (sum_r + r, sum_sq + r * r)"

definition calculate_volatility :: "VolatilityCalculator \<Rightarrow> real" where
  "calculate_volatility vc =
     (if length (returns vc) < 2 then 0
      else
        (case sum_and_squares (returns vc) (0, 0) of
           (sum_r, sum_sq) \<Rightarrow>
             (let mean = sum_r / real (length (returns vc))
              in sqrt (sum_sq / real (length (returns vc)) - mean * mean))))"

record AdvancedRiskManager =
  risk_metrics :: "string \<rightharpoonup> RiskMetrics"
  risk_limits :: "string \<rightharpoonup> RiskLimits"
  positions :: "string \<rightharpoonup> PositionTracker"
  volatility_calculators :: "string \<rightharpoonup> VolatilityCalculator"

text \<open>
  \<^verbatim>\<open>operator[]\<close> of \<^verbatim>\<open>std::unordered_map\<close> inserts a value-initialised element under
  a key that is absent: every number zero, every deque empty.
\<close>

definition RiskMetrics_default :: RiskMetrics where
  "RiskMetrics_default =
     \<lparr>gross_position = 0, net_position = 0, dollar_exposure = 0, var_95 = 0,
      expected_shortfall = 0, max_drawdown = 0, avg_position_duration = 0\<rparr>"

definition PositionTracker_default :: PositionTracker where
  "PositionTracker_default =
     \<lparr>position = 0, vwap = 0, realized_pnl = 0, unrealized_pnl = 0,
      recent_trades = [], last_update = 0\<rparr>"

definition VolatilityCalculator_default :: VolatilityCalculator where
  "VolatilityCalculator_default = \<lparr>price_history = [], returns = [], window_size = 0\<rparr>"

definition risk_metrics_at ::
  "AdvancedRiskManager \<Rightarrow> string \<Rightarrow> RiskMetrics \<times> AdvancedRiskManager" where
  "risk_metrics_at rm s =
     (case risk_metrics rm s of
        Some m \<Rightarrow> (m, rm)
      | None \<Rightarrow>
          (RiskMetrics_default,
           rm\<lparr>risk_metrics := (risk_metrics rm)(s \<mapsto> RiskMetrics_default)\<rparr>))"

definition positions_at ::
  "AdvancedRiskManager \<Rightarrow> string \<Rightarrow> PositionTracker \<times> AdvancedRiskManager" where
  "positions_at rm s =
     (case positions rm s of
        Some p \<Rightarrow> (p, rm)
      | None \<Rightarrow>
          (PositionTracker_default,
           rm\<lparr>positions := (positions rm)(s \<mapsto> PositionTracker_default)\<rparr>))"

definition volatility_calculators_at ::
  "AdvancedRiskManager \<Rightarrow> string \<Rightarrow> VolatilityCalculator \<times> AdvancedRiskManager" where
  "volatility_calculators_at rm s =
     (case volatility_calculators rm s of
        Some c \<Rightarrow> (c, rm)
      | None \<Rightarrow>
          (VolatilityCalculator_default,
           rm\<lparr>volatility_calculators :=
                 (volatility_calculators rm)(s \<mapsto> VolatilityCalculator_default)\<rparr>))"

definition set_risk_limits ::
  "AdvancedRiskManager \<Rightarrow> string \<Rightarrow> RiskLimits \<Rightarrow> AdvancedRiskManager" where
  "set_risk_limits rm s limits = rm\<lparr>risk_limits := (risk_limits rm)(s \<mapsto> limits)\<rparr>"

definition confidence_95 :: real where
  "confidence_95 = 1.645"

definition calculate_var_95 ::
  "AdvancedRiskManager \<Rightarrow> string \<Rightarrow> real \<Rightarrow> real \<times> AdvancedRiskManager" where
  "calculate_var_95 rm s pos =
     (case volatility_calculators_at rm s of
        (calc, rm') \<Rightarrow>
          (let vol = calculate_volatility calc
           in (\<bar>pos\<bar> * vol * confidence_95, rm')))"

definition calculate_expected_shortfall ::
  "AdvancedRiskManager \<Rightarrow> string \<Rightarrow> real \<Rightarrow> real \<times> AdvancedRiskManager" where
  "calculate_expected_shortfall rm s pos =
     (case calculate_var_95 rm s pos of (var, rm') \<Rightarrow> (var * 1.2, rm'))"

definition check_order :: "AdvancedRiskManager \<Rightarrow> Order \<Rightarrow> bool \<times> AdvancedRiskManager" where
  "check_order rm ord =
     (case risk_limits rm (symbol ord) of
        None \<Rightarrow> (False, rm)
      | Some limits \<Rightarrow>
          (case positions_at rm (symbol ord) of
             (pos, rm1) \<Rightarrow>
               if real (quantity ord) > max_order_size limits then (False, rm1)
               else
                 (let new_position =
                        (if is_buy ord then position pos + real (quantity ord)
                         else position pos - real (quantity ord))
                  in if \<bar>new_position\<bar> > max_net_position limits then (False, rm1)
                     else
                       (case calculate_var_95 rm1 (symbol ord) new_position of
                          (var, rm2) \<Rightarrow>
                            if var > var_limit limits then (False, rm2)
                            else
                              (case calculate_expected_shortfall rm2 (symbol ord)
                                      new_position of
                                 (es, rm3) \<Rightarrow>
                                   if es > es_limit limits then (False, rm3)
                                   else (True, rm3))))))"

text \<open>The loop that keeps the last 1000 trades.\<close>

function trim_recent_trades :: "Trade list \<Rightarrow> Trade list" where
  "trim_recent_trades ts =
     (if length ts > 1000 then trim_recent_trades (tl ts) else ts)"
  by pat_completeness auto
termination
  by (relation "measure length") auto

declare trim_recent_trades.simps [simp del]

text \<open>
  \<^verbatim>\<open>update_position\<close>. The references \<^verbatim>\<open>position\<close> and \<^verbatim>\<open>metrics\<close> alias the map
  entries, so every assignment lands in the maps. The division by the new position
  is a division of doubles; at a new position of zero the model's quotient is not
  the source's, and no theorem below evaluates it there.
\<close>

definition update_position ::
  "AdvancedRiskManager \<Rightarrow> string \<Rightarrow> Trade \<Rightarrow> AdvancedRiskManager" where
  "update_position rm s trade =
     (case positions_at rm s of
        (pos, rm1) \<Rightarrow>
          (case risk_metrics_at rm1 s of
             (metrics, rm2) \<Rightarrow>
               (let new_pos =
                      (if trade_is_buy trade
                       then position pos + real (trade_quantity trade)
                       else position pos - real (trade_quantity trade));
                    old_value = vwap pos * (new_pos - real (trade_quantity trade));
                    trade_value = trade_price trade * real (trade_quantity trade);
                    new_vwap = (old_value + trade_value) / new_pos;
                    new_unrealized = (trade_price trade - new_vwap) * new_pos;
                    metrics' = metrics\<lparr>gross_position := \<bar>new_pos\<bar>,
                                       net_position := new_pos,
                                       dollar_exposure := new_pos * trade_price trade\<rparr>
                in (case volatility_calculators_at rm2 s of
                      (calc, rm3) \<Rightarrow>
                        rm3\<lparr>risk_metrics := (risk_metrics rm3)(s \<mapsto> metrics'),
                            positions := (positions rm3)(s \<mapsto>
                              pos\<lparr>position := new_pos,
                                  vwap := new_vwap,
                                  unrealized_pnl := new_unrealized,
                                  recent_trades :=
                                    trim_recent_trades (recent_trades pos @ [trade])\<rparr>),
                            volatility_calculators := (volatility_calculators rm3)(s \<mapsto>
                              VolatilityCalculator_update calc (trade_price trade))\<rparr>))))"

text \<open>What the engine holds for a symbol before any entry has been created for it
  is what \<^verbatim>\<open>operator[]\<close> would create: position zero, no returns.\<close>

definition held_position :: "AdvancedRiskManager \<Rightarrow> string \<Rightarrow> real" where
  "held_position rm s =
     (case positions rm s of None \<Rightarrow> 0 | Some p \<Rightarrow> position p)"

definition current_volatility_estimate :: "AdvancedRiskManager \<Rightarrow> string \<Rightarrow> real" where
  "current_volatility_estimate rm s =
     (case volatility_calculators rm s of
        None \<Rightarrow> 0
      | Some c \<Rightarrow> calculate_volatility c)"

text \<open>The hypothetical position \<^verbatim>\<open>new_position\<close> that \<^verbatim>\<open>check_order\<close> computes.\<close>

definition position_after :: "AdvancedRiskManager \<Rightarrow> Order \<Rightarrow> real" where
  "position_after rm ord =
     (if is_buy ord then held_position rm (symbol ord) + real (quantity ord)
      else held_position rm (symbol ord) - real (quantity ord))"

subsection \<open>Scenario states\<close>

definition example_limits :: "real \<Rightarrow> real \<Rightarrow> RiskLimits" where
  "example_limits net var =
     \<lparr>max_gross_position = 100000, max_net_position = net,
      max_dollar_exposure = 1000000, var_limit = var, es_limit = 40,
      max_drawdown_limit = 1000, max_position_duration = 0, max_order_size = 50,
      max_daily_loss = 1000, max_daily_trades = 100\<rparr>"

text \<open>An engine holding position \<open>p\<close> in AAPL at a vwap of 100, limits for AAPL
  only, and no price seen yet.\<close>

definition engine_with_position :: "real \<Rightarrow> AdvancedRiskManager" where
  "engine_with_position p =
     \<lparr>risk_metrics = Map.empty,
      risk_limits = [''AAPL'' \<mapsto> example_limits 100 30],
      positions = [''AAPL'' \<mapsto> PositionTracker_default\<lparr>position := p, vwap := 100\<rparr>],
      volatility_calculators = Map.empty\<rparr>"

text \<open>Scenario S4: a volatility estimate of 0.02 (log-returns of plus and minus two
  per cent), a position of 990, and a VaR limit \<open>var\<close>.\<close>

definition var_gate_engine :: "real \<Rightarrow> AdvancedRiskManager" where
  "var_gate_engine var =
     \<lparr>risk_metrics = Map.empty,
      risk_limits = [''AAPL'' \<mapsto> example_limits 1000 var],
      positions = [''AAPL'' \<mapsto> PositionTracker_default\<lparr>position := 990, vwap := 100\<rparr>],
      volatility_calculators =
        [''AAPL'' \<mapsto> \<lparr>price_history = [], returns = [2 / 100, - (2 / 100)],
                       window_size = 3\<rparr>]\<rparr>"

definition example_order :: "string \<Rightarrow> bool \<Rightarrow> nat \<Rightarrow> Order" where
  "example_order s b n =
     \<lparr>order_id = ''MM_0'', symbol = s, price = 100, quantity = n, is_buy = b,
      timestamp = 0, status = ''NEW''\<rparr>"

definition example_trade :: "bool \<Rightarrow> nat \<Rightarrow> real \<Rightarrow> Trade" where
  "example_trade b n p =
     \<lparr>trade_symbol = ''AAPL'', trade_price = p, trade_quantity = n, trade_is_buy = b,
      trade_timestamp = 1\<rparr>"

section \<open>Basic risk manager (sys.cpp, RiskManager)\<close>

record PositionLimit =
  max_position :: real
  limit_dollar_exposure :: real

record RiskManager =
  position_limits :: "string \<rightharpoonup> PositionLimit"
  current_positions :: "string \<rightharpoonup> real"

text \<open>\<^verbatim>\<open>current_positions_[order.symbol]\<close> creates a zero entry for a symbol that has
  none.\<close>

definition RiskManager_check_order :: "RiskManager \<Rightarrow> Order \<Rightarrow> bool \<times> RiskManager" where
  "RiskManager_check_order rm ord =
     (case position_limits rm (symbol ord) of
        None \<Rightarrow> (False, rm)
      | Some plimit \<Rightarrow>
          (let cur = (case current_positions rm (symbol ord) of None \<Rightarrow> 0 | Some p \<Rightarrow> p);
               rm' = rm\<lparr>current_positions := (current_positions rm)(symbol ord \<mapsto> cur)\<rparr>;
               new_position = (if is_buy ord then cur + real (quantity ord)
                               else cur - real (quantity ord))
           in (\<bar>new_position\<bar> \<le> max_position plimit, rm')))"

section \<open>Market maker (mmcomp)\<close>

record MarketMakingParams =
  spread_percentage :: real
  base_position_size :: real
  inventory_skew_factor :: real
  min_tick_size :: real
  levels :: nat
  level_spacing :: real

record InventoryMetrics =
  current_position :: real
  inventory_dollar_exposure :: real
  vwap_price :: real
  position_duration :: int

record VolatilityEstimator =
  est_returns :: "real list"
  est_window_size :: nat
  current_volatility :: real

definition InventoryMetrics_default :: InventoryMetrics where
  "InventoryMetrics_default =
     \<lparr>current_position = 0, inventory_dollar_exposure = 0, vwap_price = 0,
      position_duration = 0\<rparr>"

definition VolatilityEstimator_default :: VolatilityEstimator where
  "VolatilityEstimator_default =
     \<lparr>est_returns = [], est_window_size = 0, current_volatility = 0\<rparr>"

text \<open>
  \<^verbatim>\<open>VolatilityEstimator::update\<close>. The one deque \<^verbatim>\<open>returns\<close> receives the log-return
  and then the price itself; \<^verbatim>\<open>returns.back()\<close> is its last element. The quotient and
  \<^term>\<open>ln\<close> are those of the source where the price and that last element are
  positive; at a zero or negative one the source computes an infinity or NaN, which
  the model does not have, and the theorems on the quote ladder assume positive
  prices.
\<close>

definition VolatilityEstimator_update ::
  "VolatilityEstimator \<Rightarrow> real \<Rightarrow> VolatilityEstimator" where
  "VolatilityEstimator_update est p =
     (if est_returns est \<noteq> [] then
        (let ret = ln (p / last (est_returns est));
             rs1 = est_returns est @ [ret];
             rs2 = (if length rs1 > est_window_size est then tl rs1 else rs1)
         in (case sum_and_squares rs2 (0, 0) of
               (sum_r, sum_sq) \<Rightarrow>
                 (let mean = sum_r / real (length rs2)
                  in est\<lparr>est_returns := rs2 @ [p],
                         current_volatility :=
                           sqrt (sum_sq / real (length rs2) - mean * mean)\<rparr>)))
      else est\<lparr>est_returns := [p]\<rparr>)"

text \<open>The calls the market maker makes on its order manager, in order. The order
  manager and what lies behind it are outside this component.\<close>

datatype order_manager_call = Submit_order Order | Cancel_order string

record MarketMaker =
  symbol_params :: "string \<rightharpoonup> MarketMakingParams"
  inventory :: "string \<rightharpoonup> InventoryMetrics"
  active_orders :: "string \<rightharpoonup> Order list"
  volatility_estimators :: "string \<rightharpoonup> VolatilityEstimator"
  risk_manager :: RiskManager
  order_manager_calls :: "order_manager_call list"
  order_counter :: nat

definition configure_symbol ::
  "MarketMaker \<Rightarrow> string \<Rightarrow> real \<Rightarrow> real \<Rightarrow> real \<Rightarrow> real \<Rightarrow> nat \<Rightarrow> real \<Rightarrow> MarketMaker" where
  "configure_symbol mm s spread_pct position_size skew_factor tick_size num_levels level_space =
     mm\<lparr>symbol_params := (symbol_params mm)(s \<mapsto>
          \<lparr>spread_percentage = spread_pct, base_position_size = position_size,
           inventory_skew_factor = skew_factor, min_tick_size = tick_size,
           levels = num_levels, level_spacing = level_space\<rparr>)\<rparr>"

text \<open>\<^verbatim>\<open>std::round\<close> rounds to the nearest integer, halfway cases away from zero.\<close>

definition std_round :: "real \<Rightarrow> int" where
  "std_round x = (if 0 \<le> x then \<lfloor>x + 1 / 2\<rfloor> else - \<lfloor>- x + 1 / 2\<rfloor>)"

definition round_to_tick :: "real \<Rightarrow> real \<Rightarrow> real" where
  "round_to_tick p tick_size = real_of_int (std_round (p / tick_size)) * tick_size"

text \<open>\<^verbatim>\<open>std::to_string\<close> on an unsigned counter: its decimal digits.\<close>

function to_string :: "nat \<Rightarrow> string" where
  "to_string n =
     (if n < 10 then [char_of (48 + n)]
      else to_string (n div 10) @ [char_of (48 + n mod 10)])"
  by pat_completeness auto
termination
  by (relation "measure id") auto

declare to_string.simps [simp del]

text \<open>The counter is a \<^verbatim>\<open>uint64_t\<close>; the post-increment wraps at 64 bits.\<close>

definition generate_order_id :: "MarketMaker \<Rightarrow> string \<times> MarketMaker" where
  "generate_order_id mm =
     (''MM_'' @ to_string (order_counter mm),
      mm\<lparr>order_counter := (order_counter mm + 1) mod 2 ^ 64\<rparr>)"

text \<open>
  \<^verbatim>\<open>order.quantity = size\<close> converts a \<^verbatim>\<open>double\<close> to \<^verbatim>\<open>size_t\<close>: the fraction is
  dropped, and the behaviour is undefined when the truncated value is not a
  \<^verbatim>\<open>size_t\<close>; the model returns \<open>None\<close> there.
\<close>

definition double_to_size_t :: "real \<Rightarrow> nat option" where
  "double_to_size_t x = (if - 1 < x \<and> x < 2 ^ 64 then Some (nat \<lfloor>x\<rfloor>) else None)"

text \<open>
  \<^verbatim>\<open>submit_maker_order\<close>. \<^verbatim>\<open>get_current_timestamp\<close> is not part of the source files; it
  is the parameter \<open>clock\<close>, read in the state the call is made in. The \<^verbatim>\<open>status\<close>
  of the order stays the empty string it is constructed with.
\<close>

definition submit_maker_order ::
  "(MarketMaker \<Rightarrow> int) \<Rightarrow> MarketMaker \<Rightarrow> string \<Rightarrow> bool \<Rightarrow> real \<Rightarrow> real \<Rightarrow> MarketMaker option" where
  "submit_maker_order clock mm s buy p sz =
     (case double_to_size_t sz of
        None \<Rightarrow> None
      | Some qty \<Rightarrow>
          (case generate_order_id mm of
             (oid, mm1) \<Rightarrow>
               (let ord = \<lparr>order_id = oid, symbol = s, price = p, quantity = qty,
                           is_buy = buy, timestamp = clock mm1, status = []\<rparr>
                in (case RiskManager_check_order (risk_manager mm1) ord of
                      (ok, rm') \<Rightarrow>
                        if ok then
                          Some (mm1\<lparr>risk_manager := rm',
                                    order_manager_calls :=
                                      order_manager_calls mm1 @ [Submit_order ord],
                                    active_orders := (active_orders mm1)(s \<mapsto>
                                      (case active_orders mm1 s of None \<Rightarrow> [] | Some os \<Rightarrow> os)
                                      @ [ord])\<rparr>)
                        else Some (mm1\<lparr>risk_manager := rm'\<rparr>)))))"

definition cancel_existing_orders :: "MarketMaker \<Rightarrow> string \<Rightarrow> MarketMaker" where
  "cancel_existing_orders mm s =
     (case active_orders mm s of
        None \<Rightarrow> mm
      | Some os \<Rightarrow>
          mm\<lparr>order_manager_calls :=
                order_manager_calls mm @ map (\<lambda>ord. Cancel_order (order_id ord)) os,
              active_orders := (active_orders mm)(s \<mapsto> [])\<rparr>)"

text \<open>The expressions of the loop body of \<^verbatim>\<open>update_quotes\<close>, by the names of its
  local variables; \<open>bid_raw\<close> and \<open>ask_raw\<close> are the arguments of \<^verbatim>\<open>round_to_tick\<close>.\<close>

definition level_multiplier :: "MarketMakingParams \<Rightarrow> nat \<Rightarrow> real" where
  "level_multiplier params level = 1 + real level * level_spacing params"

definition bid_raw :: "MarketMakingParams \<Rightarrow> real \<Rightarrow> real \<Rightarrow> real \<Rightarrow> nat \<Rightarrow> real" where
  "bid_raw params inventory_ratio adjusted_spread mid_price level =
     mid_price * (1 - adjusted_spread * level_multiplier params level +
                  inventory_ratio * inventory_skew_factor params)"

definition ask_raw :: "MarketMakingParams \<Rightarrow> real \<Rightarrow> real \<Rightarrow> real \<Rightarrow> nat \<Rightarrow> real" where
  "ask_raw params inventory_ratio adjusted_spread mid_price level =
     mid_price * (1 + adjusted_spread * level_multiplier params level +
                  inventory_ratio * inventory_skew_factor params)"

definition bid_price :: "MarketMakingParams \<Rightarrow> real \<Rightarrow> real \<Rightarrow> real \<Rightarrow> nat \<Rightarrow> real" where
  "bid_price params inventory_ratio adjusted_spread mid_price level =
     round_to_tick (bid_raw params inventory_ratio adjusted_spread mid_price level)
       (min_tick_size params)"

definition ask_price :: "MarketMakingParams \<Rightarrow> real \<Rightarrow> real \<Rightarrow> real \<Rightarrow> nat \<Rightarrow> real" where
  "ask_price params inventory_ratio adjusted_spread mid_price level =
     round_to_tick (ask_raw params inventory_ratio adjusted_spread mid_price level)
       (min_tick_size params)"

definition base_size :: "MarketMakingParams \<Rightarrow> nat \<Rightarrow> real" where
  "base_size params level = base_position_size params / 2 ^ level"

definition quote_level ::
  "(MarketMaker \<Rightarrow> int) \<Rightarrow> string \<Rightarrow> MarketMakingParams \<Rightarrow> real \<Rightarrow> real \<Rightarrow> real \<Rightarrow>
   nat \<Rightarrow> MarketMaker \<Rightarrow> MarketMaker option" where
  "quote_level clock s params inventory_ratio adjusted_spread mid_price level mm =
     (case submit_maker_order clock mm s True
             (bid_price params inventory_ratio adjusted_spread mid_price level)
             (base_size params level) of
        None \<Rightarrow> None
      | Some mm' \<Rightarrow>
          submit_maker_order clock mm' s False
            (ask_price params inventory_ratio adjusted_spread mid_price level)
            (base_size params level))"

text \<open>
  \<^verbatim>\<open>update_quotes\<close>: the early return for a symbol without parameters, the entries
  \<^verbatim>\<open>operator[]\<close> creates, the estimator update, and the loop over the levels
  \<open>0, ..., levels - 1\<close>. The inventory ratio is a quotient of doubles: at a base
  size of zero the source computes an infinity or NaN where the model's quotient
  is 0, so what is proved of the prices assumes a base size that is not zero.
\<close>

definition update_quotes ::
  "(MarketMaker \<Rightarrow> int) \<Rightarrow> MarketMaker \<Rightarrow> string \<Rightarrow> Quote \<Rightarrow> MarketMaker option" where
  "update_quotes clock mm s market_quote =
     (case symbol_params mm s of
        None \<Rightarrow> Some mm
      | Some params \<Rightarrow>
          (let metrics = (case inventory mm s of None \<Rightarrow> InventoryMetrics_default
                          | Some m \<Rightarrow> m);
               est = (case volatility_estimators mm s of
                        None \<Rightarrow> VolatilityEstimator_default | Some e \<Rightarrow> e);
               est' = VolatilityEstimator_update est
                        ((bid market_quote + ask market_quote) / 2);
               mm1 = mm\<lparr>inventory := (inventory mm)(s \<mapsto> metrics),
                        volatility_estimators := (volatility_estimators mm)(s \<mapsto> est')\<rparr>;
               current_vol = current_volatility est';
               inventory_ratio = current_position metrics / base_position_size params;
               adjusted_spread = spread_percentage params *
                 (1 + inventory_ratio * inventory_skew_factor params * current_vol);
               mid_price = (bid market_quote + ask market_quote) / 2;
               mm2 = cancel_existing_orders mm1 s
           in fold (\<lambda>level r.
                      case r of
                        None \<Rightarrow> None
                      | Some m \<Rightarrow>
                          quote_level clock s params inventory_ratio adjusted_spread
                            mid_price level m)
                [0..<levels params] (Some mm2)))"

text \<open>What a call of \<^verbatim>\<open>update_quotes\<close> works from: the position held for the symbol
  (zero before any entry exists) and the volatility the estimator reports once it
  has taken in the mid price of the quote.\<close>

definition inventory_position :: "MarketMaker \<Rightarrow> string \<Rightarrow> real" where
  "inventory_position mm s =
     (case inventory mm s of None \<Rightarrow> 0 | Some m \<Rightarrow> current_position m)"

definition updated_volatility :: "MarketMaker \<Rightarrow> string \<Rightarrow> Quote \<Rightarrow> real" where
  "updated_volatility mm s market_quote =
     current_volatility
       (VolatilityEstimator_update
          (case volatility_estimators mm s of
             None \<Rightarrow> VolatilityEstimator_default | Some e \<Rightarrow> e)
          ((bid market_quote + ask market_quote) / 2))"

definition inventory_ratio_of :: "MarketMaker \<Rightarrow> string \<Rightarrow> MarketMakingParams \<Rightarrow> real" where
  "inventory_ratio_of mm s params = inventory_position mm s / base_position_size params"

definition adjusted_spread_of ::
  "MarketMaker \<Rightarrow> string \<Rightarrow> MarketMakingParams \<Rightarrow> Quote \<Rightarrow> real" where
  "adjusted_spread_of mm s params market_quote =
     spread_percentage params *
       (1 + inventory_ratio_of mm s params * inventory_skew_factor params *
            updated_volatility mm s market_quote)"

text \<open>The orders standing for a symbol after a call: the call first clears the
  list, so these are the orders the call emitted.\<close>

definition emitted :: "MarketMaker \<Rightarrow> string \<Rightarrow> Order list" where
  "emitted mm s = (case active_orders mm s of None \<Rightarrow> [] | Some os \<Rightarrow> os)"

text \<open>The answer of \<^verbatim>\<open>RiskManager::check_order\<close> as a function of what it reads.\<close>

definition risk_accepts :: "RiskManager \<Rightarrow> string \<Rightarrow> bool \<Rightarrow> nat \<Rightarrow> bool" where
  "risk_accepts rm s buy qty =
     (case position_limits rm s of
        None \<Rightarrow> False
      | Some plimit \<Rightarrow>
          (let cur = (case current_positions rm s of None \<Rightarrow> 0 | Some p \<Rightarrow> p)
           in \<bar>if buy then cur + real qty else cur - real qty\<bar> \<le> max_position plimit))"

text \<open>Side, price and size of an order, and the orders one call of
  \<^verbatim>\<open>update_quotes\<close> builds for the levels below \<open>n\<close>, in the order the loop submits
  them: the bid of a level, then its ask, each with the size as \<^verbatim>\<open>Order::quantity\<close>
  holds it.\<close>

definition order_terms :: "Order \<Rightarrow> bool \<times> real \<times> nat" where
  "order_terms ord = (is_buy ord, price ord, quantity ord)"

definition ladder ::
  "MarketMakingParams \<Rightarrow> real \<Rightarrow> real \<Rightarrow> real \<Rightarrow> nat \<Rightarrow> (bool \<times> real \<times> nat) list" where
  "ladder params inventory_ratio adjusted_spread mid_price n =
     concat (map (\<lambda>level.
        [(True, bid_price params inventory_ratio adjusted_spread mid_price level,
          nat \<lfloor>base_size params level\<rfloor>),
         (False, ask_price params inventory_ratio adjusted_spread mid_price level,
          nat \<lfloor>base_size params level\<rfloor>)]) [0..<n])"

subsection \<open>Scenario states of the market maker\<close>

text \<open>The parameters of scenarios S1 and S2 with \<open>n\<close> levels and skew factor
  \<open>skew\<close>; the S1 parameters with base size \<open>b\<close>; a maker configured for AAPL only, holding \<open>pos\<close>, with estimators
  \<open>ests\<close>, no order standing and a risk manager that allows AAPL positions up to
  1000; coarse parameters with a tick of 1; and the estimator a fresh one becomes
  after two quotes at a mid price of 100.\<close>

definition example_params :: "nat \<Rightarrow> real \<Rightarrow> MarketMakingParams" where
  "example_params n skew =
     \<lparr>spread_percentage = 1 / 1000, base_position_size = 100,
      inventory_skew_factor = skew, min_tick_size = 1 / 100, levels = n,
      level_spacing = 1 / 2\<rparr>"

definition sized_params :: "real \<Rightarrow> nat \<Rightarrow> MarketMakingParams" where
  "sized_params b n =
     \<lparr>spread_percentage = 1 / 1000, base_position_size = b,
      inventory_skew_factor = 0, min_tick_size = 1 / 100, levels = n,
      level_spacing = 1 / 2\<rparr>"

definition maker_state ::
  "MarketMakingParams \<Rightarrow> real \<Rightarrow> (string \<rightharpoonup> VolatilityEstimator) \<Rightarrow> MarketMaker" where
  "maker_state params pos ests =
     \<lparr>symbol_params = [''AAPL'' \<mapsto> params],
      inventory = [''AAPL'' \<mapsto> InventoryMetrics_default\<lparr>current_position := pos\<rparr>],
      active_orders = Map.empty,
      volatility_estimators = ests,
      risk_manager = \<lparr>position_limits =
                        [''AAPL'' \<mapsto> \<lparr>max_position = 1000, limit_dollar_exposure = 1000000\<rparr>],
                      current_positions = Map.empty\<rparr>,
      order_manager_calls = [],
      order_counter = 0\<rparr>"

definition example_quote :: "real \<Rightarrow> real \<Rightarrow> Quote" where
  "example_quote b a =
     \<lparr>quote_symbol = ''AAPL'', bid = b, ask = a, bid_size = 1, ask_size = 1,
      quote_timestamp = 0\<rparr>"

definition example_clock :: "MarketMaker \<Rightarrow> int" where
  "example_clock mm = int (order_counter mm)"


definition mixed_estimator :: VolatilityEstimator where
  "mixed_estimator = \<lparr>est_returns = [0, 100], est_window_size = 0, current_volatility = 0\<rparr>"

section \<open>Stop-limit orders: the triggering quote never fires\<close>

lemma should_trigger_calls_append:
  "should_trigger_calls ord (qs @ qs') =
     (case should_trigger_calls ord qs of
        (rs, ord') \<Rightarrow>
          (case should_trigger_calls ord' qs' of (rs', ord'') \<Rightarrow> (rs @ rs', ord'')))"
  by (induction qs arbitrary: ord) (auto split: prod.splits)

lemma should_trigger_calls_untriggered:
  assumes "\<not> stop_triggered ord"
    and "\<forall>q \<in> set qs. \<not> (if base_is_buy ord then ask q \<ge> stop_price ord
                                else bid q \<le> stop_price ord)"
  shows "should_trigger_calls ord qs = (replicate (length qs) False, ord)"
  using assms
proof (induction qs)
  case Nil
  then show ?case by simp
next
  case (Cons q qs)
  have "StopLimitOrder_should_trigger ord q = (False, ord)"
    using Cons.prems by (cases ord) (auto simp: StopLimitOrder_should_trigger_def)
  then show ?case using Cons by simp
qed

lemma should_trigger_calls_triggered:
  assumes "stop_triggered ord"
  shows "should_trigger_calls ord qs =
           (map (\<lambda>q. if base_is_buy ord then ask q \<le> limit_price ord
                      else bid q \<ge> limit_price ord) qs, ord)"
  using assms
  by (induction qs) (simp_all add: StopLimitOrder_should_trigger_def)

text \<open>
  Claim C10. Take a stop-limit order whose \<open>stop_triggered\<close> is false, a run of
  quotes \<open>pre\<close> none of which meets the stop condition (ask at or above the stop
  price for a buy, bid at or below it for a sell), a quote \<open>q\<close> that meets it,
  and any later quotes \<open>post\<close>. Every call up to and including the one on \<open>q\<close>
  answers false, whether or not \<open>q\<close> also meets the limit condition; each later
  call answers exactly the limit condition of its quote (ask at or below the
  limit price for a buy, bid at or above it for a sell); and after the call on
  \<open>q\<close> and after every later call \<open>stop_triggered\<close> is true.
\<close>

theorem C10_stop_limit_trigger_sequence:
  assumes "\<not> stop_triggered ord"
    and "\<forall>p \<in> set pre. \<not> (if base_is_buy ord then ask p \<ge> stop_price ord
                                else bid p \<le> stop_price ord)"
    and "if base_is_buy ord then ask q \<ge> stop_price ord else bid q \<le> stop_price ord"
  shows "fst (should_trigger_calls ord (pre @ [q] @ post)) =
           replicate (length pre) False @ [False] @
           map (\<lambda>p. if base_is_buy ord then ask p \<le> limit_price ord
                      else bid p \<ge> limit_price ord) post
         \<and> (\<forall>k. stop_triggered
                  (snd (should_trigger_calls ord (pre @ [q] @ take k post))))"
proof -
  let ?ord' = "ord\<lparr>stop_triggered := True\<rparr>"
  have pre: "should_trigger_calls ord pre = (replicate (length pre) False, ord)"
    using assms(1,2) by (rule should_trigger_calls_untriggered)
  have hit: "StopLimitOrder_should_trigger ord q = (False, ?ord')"
    using assms(1,3) by (simp add: StopLimitOrder_should_trigger_def split: if_splits)
  have run: "should_trigger_calls ord (pre @ [q] @ qs) =
               (replicate (length pre) False @ [False] @
                map (\<lambda>p. if base_is_buy ord then ask p \<le> limit_price ord
                           else bid p \<ge> limit_price ord) qs, ?ord')" for qs
    using should_trigger_calls_triggered [of ?ord' qs]
    by (simp add: should_trigger_calls_append pre hit)
  have "fst (should_trigger_calls ord (pre @ [q] @ post)) =
          replicate (length pre) False @ [False] @
          map (\<lambda>p. if base_is_buy ord then ask p \<le> limit_price ord
                     else bid p \<ge> limit_price ord) post"
    by (simp only: run fst_conv)
  moreover have "stop_triggered
                   (snd (should_trigger_calls ord (pre @ [q] @ take k post)))" for k
    by (simp only: run snd_conv) simp
  ultimately show ?thesis
    by blast
qed

theorem C10_stop_limit_trigger_sequence_witness:
  "fst (should_trigger_calls
         \<lparr>base_order_id = ''SL1'', base_symbol = ''AAPL'', base_is_buy = True,
           base_quantity = 10, base_timestamp = 0,
           stop_price = 100, limit_price = 105, stop_triggered = False\<rparr>
         ([\<lparr>quote_symbol = ''AAPL'', bid = 98, ask = 99, bid_size = 1, ask_size = 1,
             quote_timestamp = 1\<rparr>] @
          [\<lparr>quote_symbol = ''AAPL'', bid = 100, ask = 101, bid_size = 1, ask_size = 1,
             quote_timestamp = 2\<rparr>] @
          [\<lparr>quote_symbol = ''AAPL'', bid = 102, ask = 103, bid_size = 1, ask_size = 1,
             quote_timestamp = 3\<rparr>,
           \<lparr>quote_symbol = ''AAPL'', bid = 106, ask = 107, bid_size = 1, ask_size = 1,
             quote_timestamp = 4\<rparr>]))
   = [False, False, True, False]"
  using C10_stop_limit_trigger_sequence
    [of "\<lparr>base_order_id = ''SL1'', base_symbol = ''AAPL'', base_is_buy = True,
           base_quantity = 10, base_timestamp = 0,
           stop_price = 100, limit_price = 105, stop_triggered = False\<rparr>"
        "[\<lparr>quote_symbol = ''AAPL'', bid = 98, ask = 99, bid_size = 1, ask_size = 1,
             quote_timestamp = 1\<rparr>]"
        "\<lparr>quote_symbol = ''AAPL'', bid = 100, ask = 101, bid_size = 1, ask_size = 1,
             quote_timestamp = 2\<rparr>"
        "[\<lparr>quote_symbol = ''AAPL'', bid = 102, ask = 103, bid_size = 1, ask_size = 1,
             quote_timestamp = 3\<rparr>,
          \<lparr>quote_symbol = ''AAPL'', bid = 106, ask = 107, bid_size = 1, ask_size = 1,
             quote_timestamp = 4\<rparr>]"]
  by simp

section \<open>The queue holds one item fewer than it has slots\<close>

lemma queue_wf_init: "queue_wf (LockFreeQueue_init d)"
  by (simp add: queue_wf_def LockFreeQueue_init_def QUEUE_SIZE_def)

lemma queue_count_init: "queue_count (LockFreeQueue_init d) = 0"
  by (simp add: queue_count_def LockFreeQueue_init_def)

lemma queue_contents_init: "queue_contents (LockFreeQueue_init d) = []"
  by (simp add: queue_contents_def queue_count_init)

lemma queue_count_less: "queue_count q < QUEUE_SIZE"
  by (simp add: queue_count_def QUEUE_SIZE_def)

lemma queue_count_contents: "length (queue_contents q) = queue_count q"
  by (simp add: queue_contents_def)

lemma slot_index:
  assumes "queue_wf q" "i < QUEUE_SIZE"
  shows "(head q + i) mod QUEUE_SIZE = tail q \<longleftrightarrow> i = queue_count q"
  using assms unfolding queue_wf_def queue_count_def
  by (auto simp: mod_if split: if_splits)

lemma push_full:
  assumes "queue_wf q" "queue_count q = QUEUE_SIZE - 1"
  shows "push q x = (False, q)"
  using assms unfolding queue_wf_def queue_count_def push_def Let_def
  by (auto simp: mod_if QUEUE_SIZE_def split: if_splits)

lemma push_accepted:
  assumes "queue_wf q" "queue_count q < QUEUE_SIZE - 1"
  shows "fst (push q x) = True" "queue_wf (snd (push q x))"
    "queue_count (snd (push q x)) = queue_count q + 1"
  using assms unfolding queue_wf_def queue_count_def push_def Let_def
  by (auto simp: mod_if QUEUE_SIZE_def split: if_splits)

lemma push_contents:
  assumes "queue_wf q" "queue_count q < QUEUE_SIZE - 1"
  shows "queue_contents (snd (push q x)) = queue_contents q @ [x]"
proof -
  have ne: "(tail q + 1) mod QUEUE_SIZE \<noteq> head q"
    using push_accepted(1)[OF assms, of x] by (auto simp: push_def Let_def split: if_splits)
  have len: "length (buffer q) = QUEUE_SIZE" and t: "tail q < QUEUE_SIZE"
    using assms(1) by (simp_all add: queue_wf_def)
  have cnt: "queue_count (snd (push q x)) = queue_count q + 1"
    by (rule push_accepted(3)[OF assms])
  have old: "(buffer q)[tail q := x] ! ((head q + i) mod QUEUE_SIZE) =
             buffer q ! ((head q + i) mod QUEUE_SIZE)" if "i < queue_count q" for i
  proof -
    have "i < QUEUE_SIZE" using that queue_count_less[of q] by simp
    then have "(head q + i) mod QUEUE_SIZE \<noteq> tail q"
      using slot_index[OF assms(1), of i] that by simp
    then show ?thesis by simp
  qed
  have new: "(buffer q)[tail q := x] ! ((head q + queue_count q) mod QUEUE_SIZE) = x"
    using slot_index[OF assms(1) queue_count_less, of q] len t by simp
  have hd_eq: "head (snd (push q x)) = head q" and
       buf_eq: "buffer (snd (push q x)) = (buffer q)[tail q := x]"
    using ne by (simp_all add: push_def Let_def)
  show ?thesis
    unfolding queue_contents_def cnt hd_eq buf_eq
    using old new by (simp add: queue_contents_def)
qed

lemma pop_empty:
  assumes "queue_wf q" "queue_count q = 0"
  shows "pop q = (None, q)"
  using assms unfolding queue_wf_def queue_count_def pop_def Let_def
  by (auto simp: mod_if split: if_splits)

lemma pop_item:
  assumes "queue_wf q" "queue_count q \<noteq> 0"
  shows "fst (pop q) = Some (hd (queue_contents q))" "queue_wf (snd (pop q))"
    "queue_contents (snd (pop q)) = tl (queue_contents q)"
proof -
  have ne: "head q \<noteq> tail q"
    using assms unfolding queue_wf_def queue_count_def by (auto simp: mod_if split: if_splits)
  have h: "head q < QUEUE_SIZE"
    using assms(1) by (simp add: queue_wf_def)
  have pop_eq: "pop q = (Some (buffer q ! head q), q\<lparr>head := (head q + 1) mod QUEUE_SIZE\<rparr>)"
    using ne by (simp add: pop_def Let_def)
  obtain c where c: "queue_count q = Suc c"
    using assms(2) by (cases "queue_count q") auto
  have upt: "[0..<Suc c] = 0 # map Suc [0..<c]"
    by (simp add: upt_conv_Cons map_Suc_upt del: upt_Suc)
  show "fst (pop q) = Some (hd (queue_contents q))"
    using h by (simp add: pop_eq queue_contents_def c upt del: upt_Suc)
  show "queue_wf (snd (pop q))"
    using assms(1) by (simp add: pop_eq queue_wf_def QUEUE_SIZE_def)
  have cnt: "queue_count (q\<lparr>head := Suc (head q) mod QUEUE_SIZE\<rparr>) = c"
    using assms(1) c ne unfolding queue_wf_def queue_count_def
    by (auto simp: mod_if QUEUE_SIZE_def split: if_splits)
  have idx: "(Suc (head q) mod QUEUE_SIZE + i) mod QUEUE_SIZE = Suc (head q + i) mod QUEUE_SIZE"
    for i
    by (simp add: mod_add_left_eq)
  show "queue_contents (snd (pop q)) = tl (queue_contents q)"
    by (simp add: pop_eq queue_contents_def cnt c upt idx comp_def del: upt_Suc)
qed

lemma run_queue_append:
  "run_queue q (ops @ ops') =
     (case run_queue q ops of
        (evs, q') \<Rightarrow> (case run_queue q' ops' of (evs', q'') \<Rightarrow> (evs @ evs', q'')))"
  by (induction q ops rule: run_queue.induct) (auto split: prod.splits)

lemma run_queue_wf_fifo:
  assumes "queue_wf q" "run_queue q ops = (evs, q')"
  shows "queue_wf q' \<and>
         queue_contents q @ accepted_items evs = popped_items evs @ queue_contents q'"
  using assms
proof (induction ops arbitrary: q evs)
  case Nil
  then show ?case by simp
next
  case (Cons a ops)
  show ?case
  proof (cases a)
    case (Push x)
    show ?thesis
    proof (cases "queue_count q < QUEUE_SIZE - 1")
      case True
      obtain evs1 where r: "run_queue (snd (push q x)) ops = (evs1, q')"
        and e: "evs = Accepted x # evs1"
        using Cons.prems(2) Push push_accepted(1)[OF Cons.prems(1) True, of x]
        by (auto split: prod.splits)
      from Cons.IH[OF push_accepted(2)[OF Cons.prems(1) True] r]
      show ?thesis using e push_contents[OF Cons.prems(1) True, of x] by simp
    next
      case False
      then have "queue_count q = QUEUE_SIZE - 1"
        using queue_count_less[of q] by simp
      then have p: "push q x = (False, q)"
        using push_full[OF Cons.prems(1)] by simp
      obtain evs1 where r: "run_queue q ops = (evs1, q')" and e: "evs = Full x # evs1"
        using Cons.prems(2) Push p by (auto split: prod.splits)
      from Cons.IH[OF Cons.prems(1) r] show ?thesis using e by simp
    qed
  next
    case Pop
    show ?thesis
    proof (cases "queue_count q = 0")
      case True
      then have p: "pop q = (None, q)" using pop_empty[OF Cons.prems(1)] by simp
      obtain evs1 where r: "run_queue q ops = (evs1, q')" and e: "evs = Empty # evs1"
        using Cons.prems(2) Pop p by (auto split: prod.splits)
      from Cons.IH[OF Cons.prems(1) r] show ?thesis using e by simp
    next
      case False
      note pi = pop_item[OF Cons.prems(1) False]
      have nonempty: "queue_contents q \<noteq> []"
        using False queue_count_contents[of q] by auto
      obtain evs1 where r: "run_queue (snd (pop q)) ops = (evs1, q')"
        and e: "evs = Popped (hd (queue_contents q)) # evs1"
        using Cons.prems(2) Pop pi(1) by (auto split: prod.splits)
      from Cons.IH[OF pi(2) r] have
        "tl (queue_contents q) @ accepted_items evs1 = popped_items evs1 @ queue_contents q'"
        and wf: "queue_wf q'"
        using pi(3) by simp_all
      then have "queue_contents q @ accepted_items evs1 =
                 hd (queue_contents q) # popped_items evs1 @ queue_contents q'"
        using nonempty by (cases "queue_contents q") simp_all
      then show ?thesis using e wf by simp
    qed
  qed
qed

lemma run_queue_pushes:
  assumes "queue_wf q" "queue_count q + length xs \<le> QUEUE_SIZE - 1"
  shows "fst (run_queue q (map Push xs)) = map Accepted xs \<and>
         queue_wf (snd (run_queue q (map Push xs))) \<and>
         queue_contents (snd (run_queue q (map Push xs))) = queue_contents q @ xs"
  using assms
proof (induction xs arbitrary: q)
  case Nil
  then show ?case by simp
next
  case (Cons x xs)
  have lt: "queue_count q < QUEUE_SIZE - 1" using Cons.prems(2) by simp
  note pa = push_accepted[OF Cons.prems(1) lt, of x]
  have "queue_count (snd (push q x)) + length xs \<le> QUEUE_SIZE - 1"
    using pa(3) Cons.prems(2) by simp
  from Cons.IH[OF pa(2) this] show ?case
    using pa(1) push_contents[OF Cons.prems(1) lt, of x]
    by (auto split: prod.splits)
qed

text \<open>Filling an empty queue: the first \<open>QUEUE_SIZE - 1\<close> pushes are accepted, and
  the queue then reports full to a push, hands its oldest item to a pop, and
  accepts one push after that.\<close>

lemma run_queue_fill:
  assumes "length xs = QUEUE_SIZE - 1"
  shows "fst (run_queue (LockFreeQueue_init d) (map Push xs @ [Push y, Pop, Push z])) =
           map Accepted xs @ [Full y, Popped (hd xs), Accepted z]"
proof -
  let ?q0 = "LockFreeQueue_init d :: 'a LockFreeQueue"
  let ?q1 = "snd (run_queue ?q0 (map Push xs))"
  have fits: "queue_count ?q0 + length xs \<le> QUEUE_SIZE - 1"
    using assms by (simp add: queue_count_init)
  note filled = run_queue_pushes [OF queue_wf_init fits]
  have evs1: "fst (run_queue ?q0 (map Push xs)) = map Accepted xs"
    and wf1: "queue_wf ?q1" and c1: "queue_contents ?q1 = xs"
    using filled by (simp_all add: queue_contents_init)
  have n1: "queue_count ?q1 = QUEUE_SIZE - 1"
    using c1 assms queue_count_contents [of ?q1] by simp
  have full: "push ?q1 y = (False, ?q1)"
    by (rule push_full [OF wf1 n1])
  have ne: "queue_count ?q1 \<noteq> 0"
    using n1 by (simp add: QUEUE_SIZE_def)
  note popped = pop_item [OF wf1 ne]
  let ?q2 = "snd (pop ?q1)"
  have n2: "queue_count ?q2 < QUEUE_SIZE - 1"
    using popped(3) c1 assms queue_count_contents [of ?q2] by (simp add: QUEUE_SIZE_def)
  have ok: "fst (push ?q2 z) = True"
    by (rule push_accepted(1) [OF popped(2) n2])
  have tail_run: "fst (run_queue ?q1 [Push y, Pop, Push z]) =
                    [Full y, Popped (hd xs), Accepted z]"
    using full popped(1) ok c1
    by (cases "pop ?q1"; cases "push ?q2 z") (simp add: split: prod.splits)
  show ?thesis
    using evs1 tail_run
    by (cases "run_queue ?q0 (map Push xs)";
        cases "run_queue ?q1 [Push y, Pop, Push z]")
       (simp add: run_queue_append)
qed

lemma run_queue_overfill:
  assumes "length xs = QUEUE_SIZE - 1"
  shows "fst (run_queue (LockFreeQueue_init d) (map Push (xs @ [y]))) =
           map Accepted xs @ [Full y]"
proof -
  let ?q0 = "LockFreeQueue_init d :: 'a LockFreeQueue"
  let ?q1 = "snd (run_queue ?q0 (map Push xs))"
  have fits: "queue_count ?q0 + length xs \<le> QUEUE_SIZE - 1"
    using assms by (simp add: queue_count_init)
  note filled = run_queue_pushes [OF queue_wf_init fits]
  have n1: "queue_count ?q1 = QUEUE_SIZE - 1"
    using filled assms queue_count_contents [of ?q1]
    by (simp add: queue_contents_init)
  have full: "push ?q1 y = (False, ?q1)"
    using filled by (intro push_full n1) simp
  show ?thesis
    using filled full
    by (cases "run_queue ?q0 (map Push xs)") (simp add: run_queue_append)
qed

text \<open>
  Claim C4, as the claim states it, at the capacity the source declares
  (\<open>QUEUE_SIZE = 1024\<close>): of 1024 consecutive pushes of the items 1, ..., 1024 into
  the empty queue, the first 1023 are accepted and the last one already reports
  full, so 1024 consecutive pushes are not all accepted.
\<close>

theorem C4_capacity_counterexample:
  "fst (run_queue (LockFreeQueue_init (0::nat)) (map Push ([1..<1024] @ [1024]))) =
     map Accepted [1..<1024] @ [Full 1024]"
proof -
  have "length [1..<1024::nat] = QUEUE_SIZE - 1"
    by (simp only: length_upt QUEUE_SIZE_def)
  then show ?thesis
    by (rule run_queue_overfill)
qed

text \<open>
  Claim C4, amended. The ring has \<open>QUEUE_SIZE\<close> slots and keeps one of them free.
  Starting from the empty queue, \<open>QUEUE_SIZE - 1\<close> consecutive pushes are all
  accepted and the next push reports full; after one pop, which returns the first
  item pushed, one further push is accepted. For any sequence of pushes and pops
  on the empty queue, the accepted items, in push order, are the popped items, in
  pop order, followed by the items still waiting in the queue: pops return the
  items in the order they were pushed, with no duplicate and no loss other than
  the pushes that reported full.
\<close>

theorem C4_queue_backpressure_fifo:
  "(length xs = QUEUE_SIZE - 1 \<longrightarrow>
      fst (run_queue (LockFreeQueue_init d) (map Push xs @ [Push y, Pop, Push z])) =
        map Accepted xs @ [Full y, Popped (hd xs), Accepted z])
   \<and> accepted_items (fst (run_queue (LockFreeQueue_init d) ops)) =
       popped_items (fst (run_queue (LockFreeQueue_init d) ops)) @
       queue_contents (snd (run_queue (LockFreeQueue_init d) ops))"
proof -
  have "accepted_items (fst (run_queue (LockFreeQueue_init d) ops)) =
          popped_items (fst (run_queue (LockFreeQueue_init d) ops)) @
          queue_contents (snd (run_queue (LockFreeQueue_init d) ops))"
    using run_queue_wf_fifo [OF queue_wf_init, of d ops]
    by (cases "run_queue (LockFreeQueue_init d) ops") (simp add: queue_contents_init)
  then show ?thesis
    using run_queue_fill [of xs d y z] by blast
qed

theorem C4_queue_backpressure_fifo_witness:
  "fst (run_queue (LockFreeQueue_init (0::nat))
          (map Push [1..<1024] @ [Push 1024, Pop, Push 1025])) =
     map Accepted [1..<1024] @ [Full 1024, Popped 1, Accepted 1025]"
proof -
  have len: "length [1..<1024::nat] = QUEUE_SIZE - 1"
    by (simp only: length_upt QUEUE_SIZE_def)
  have first: "hd [1..<1024::nat] = 1"
    by (rule hd_upt) simp
  from C4_queue_backpressure_fifo [of "[1..<1024]" 0 1024 1025 "[]"]
  have "length [1..<1024::nat] = QUEUE_SIZE - 1 \<longrightarrow>
        fst (run_queue (LockFreeQueue_init (0::nat))
               (map Push [1..<1024] @ [Push 1024, Pop, Push 1025])) =
          map Accepted [1..<1024] @ [Full 1024, Popped (hd [1..<1024]), Accepted 1025]"
    by (rule conjunct1)
  from this len have
    "fst (run_queue (LockFreeQueue_init (0::nat))
            (map Push [1..<1024] @ [Push 1024, Pop, Push 1025])) =
       map Accepted [1..<1024] @ [Full 1024, Popped (hd [1..<1024]), Accepted 1025]"
    by (rule mp)
  then show ?thesis
    unfolding first .
qed

section \<open>Pre-trade check\<close>

lemma calculate_volatility_default: "calculate_volatility VolatilityCalculator_default = 0"
  by (simp add: calculate_volatility_def VolatilityCalculator_default_def)

lemma positions_at_fst:
  "position (fst (positions_at rm s)) = held_position rm s"
  by (simp add: positions_at_def held_position_def PositionTracker_default_def
      split: option.splits)

lemma positions_at_snd_calcs:
  "volatility_calculators (snd (positions_at rm s)) = volatility_calculators rm"
  by (simp add: positions_at_def split: option.splits)

lemma positions_at_snd_estimate:
  "current_volatility_estimate (snd (positions_at rm s)) s' = current_volatility_estimate rm s'"
  by (simp add: current_volatility_estimate_def positions_at_snd_calcs)

lemma calculate_var_95_fst:
  "fst (calculate_var_95 rm s p) = \<bar>p\<bar> * current_volatility_estimate rm s * confidence_95"
  by (simp add: calculate_var_95_def volatility_calculators_at_def
      current_volatility_estimate_def calculate_volatility_default split: option.splits)

lemma calculate_var_95_snd_estimate:
  "current_volatility_estimate (snd (calculate_var_95 rm s p)) s' =
     current_volatility_estimate rm s'"
  by (simp add: calculate_var_95_def volatility_calculators_at_def
      current_volatility_estimate_def calculate_volatility_default split: option.splits)

lemma calculate_expected_shortfall_fst:
  "fst (calculate_expected_shortfall rm s p) =
     \<bar>p\<bar> * current_volatility_estimate rm s * confidence_95 * 1.2"
  using calculate_var_95_fst [of rm s p]
  by (cases "calculate_var_95 rm s p") (simp add: calculate_expected_shortfall_def)

lemma check_order_fst:
  "fst (check_order rm ord) =
     (case risk_limits rm (symbol ord) of
        None \<Rightarrow> False
      | Some limits \<Rightarrow>
          real (quantity ord) \<le> max_order_size limits \<and>
          \<bar>position_after rm ord\<bar> \<le> max_net_position limits \<and>
          \<bar>position_after rm ord\<bar> * current_volatility_estimate rm (symbol ord) * confidence_95
            \<le> var_limit limits \<and>
          \<bar>position_after rm ord\<bar> * current_volatility_estimate rm (symbol ord) * confidence_95
            * 1.2 \<le> es_limit limits)"
proof (cases "risk_limits rm (symbol ord)")
  case None
  then show ?thesis by (simp add: check_order_def)
next
  case (Some limits)
  obtain pos rm1 where p: "positions_at rm (symbol ord) = (pos, rm1)"
    by (cases "positions_at rm (symbol ord)")
  have pos: "position pos = held_position rm (symbol ord)"
    using positions_at_fst [of rm "symbol ord"] p by simp
  have est1: "current_volatility_estimate rm1 (symbol ord) =
              current_volatility_estimate rm (symbol ord)"
    using positions_at_snd_estimate [of rm "symbol ord" "symbol ord"] p by simp
  let ?np = "position_after rm ord"
  obtain var rm2 where v: "calculate_var_95 rm1 (symbol ord) ?np = (var, rm2)"
    by (cases "calculate_var_95 rm1 (symbol ord) ?np")
  have var: "var = \<bar>?np\<bar> * current_volatility_estimate rm (symbol ord) * confidence_95"
    using calculate_var_95_fst [of rm1 "symbol ord" ?np] v est1 by simp
  have est2: "current_volatility_estimate rm2 (symbol ord) =
              current_volatility_estimate rm (symbol ord)"
    using calculate_var_95_snd_estimate [of rm1 "symbol ord" ?np "symbol ord"] v est1 by simp
  obtain es rm3 where e: "calculate_expected_shortfall rm2 (symbol ord) ?np = (es, rm3)"
    by (cases "calculate_expected_shortfall rm2 (symbol ord) ?np")
  have es: "es = \<bar>?np\<bar> * current_volatility_estimate rm (symbol ord) * confidence_95 * 1.2"
    using calculate_expected_shortfall_fst [of rm2 "symbol ord" ?np] e est2 by simp
  have np: "(if is_buy ord then position pos + real (quantity ord)
             else position pos - real (quantity ord)) = ?np"
    by (simp add: position_after_def pos)
  show ?thesis
    unfolding check_order_def Some option.case p prod.case Let_def np v e
    using var es by (auto simp: not_less)
qed

text \<open>
  Claim C1. With \<open>pos\<close> the position held for the order's symbol, \<open>\<sigma>\<close> the current
  volatility estimate for it, \<open>after\<close> the position the order would lead to (plus
  the quantity for a buy, minus it for a sell), \<open>VaR = \<bar>after\<bar> * \<sigma> * 1.645\<close> and
  \<open>ES = 1.2 * VaR\<close>: \<^verbatim>\<open>check_order\<close> returns true exactly when limits are configured
  for the symbol, the quantity is at most \<open>max_order_size\<close>, \<open>\<bar>after\<bar>\<close> is at most
  \<open>max_net_position\<close>, \<open>VaR\<close> is at most \<open>var_limit\<close> and \<open>ES\<close> is at most \<open>es_limit\<close>;
  and it returns false for every order on a symbol without limits.
\<close>

theorem C1_check_order_accepts_iff:
  "(fst (check_order rm ord) \<longleftrightarrow>
      (\<exists>limits.
         risk_limits rm (symbol ord) = Some limits \<and>
         (let pos = held_position rm (symbol ord);
              \<sigma> = current_volatility_estimate rm (symbol ord);
              after = (if is_buy ord then pos + real (quantity ord)
                       else pos - real (quantity ord));
              VaR = \<bar>after\<bar> * \<sigma> * 1.645;
              ES = 1.2 * VaR
          in real (quantity ord) \<le> max_order_size limits \<and>
             \<bar>after\<bar> \<le> max_net_position limits \<and>
             VaR \<le> var_limit limits \<and>
             ES \<le> es_limit limits)))
   \<and> (risk_limits rm (symbol ord) = None \<longrightarrow> \<not> fst (check_order rm ord))"
  by (cases "risk_limits rm (symbol ord)")
     (simp_all add: check_order_fst position_after_def confidence_95_def Let_def
        mult.commute mult.left_commute)

lemma example_order_fields:
  "symbol (example_order s b n) = s" "quantity (example_order s b n) = n"
  "is_buy (example_order s b n) = b"
  by (simp_all add: example_order_def)

lemma var_gate_volatility:
  "current_volatility_estimate (var_gate_engine var) ''AAPL'' = 2 / 100"
proof -
  have "sqrt (4 / 10000) = sqrt ((2 / 100)\<^sup>2)"
    by (simp add: power2_eq_square)
  also have "\<dots> = 2 / 100"
    by (simp only: real_sqrt_abs)
  finally show ?thesis
    by (simp add: current_volatility_estimate_def var_gate_engine_def
        calculate_volatility_def)
qed

theorem C1_check_order_accepts_iff_witness:
  "\<not> fst (check_order (var_gate_engine 35) (example_order ''MSFT'' True 10))
   \<and> fst (check_order (var_gate_engine 35) (example_order ''AAPL'' True 10))
   \<and> \<not> fst (check_order (var_gate_engine 30) (example_order ''AAPL'' True 10))"
proof -
  have none: "risk_limits (var_gate_engine 35) ''MSFT'' = None"
    by (simp add: var_gate_engine_def)
  have lim: "risk_limits (var_gate_engine var) ''AAPL'' = Some (example_limits 1000 var)"
    for var
    by (simp add: var_gate_engine_def)
  have pos: "held_position (var_gate_engine var) ''AAPL'' = 990" for var
    by (simp add: held_position_def var_gate_engine_def PositionTracker_default_def)
  have "\<not> fst (check_order (var_gate_engine 35) (example_order ''MSFT'' True 10))"
    using C1_check_order_accepts_iff
      [of "var_gate_engine 35" "example_order ''MSFT'' True 10"]
    by (simp add: example_order_fields none)
  moreover have "fst (check_order (var_gate_engine 35) (example_order ''AAPL'' True 10))"
    using C1_check_order_accepts_iff
      [of "var_gate_engine 35" "example_order ''AAPL'' True 10"]
    by (simp add: example_order_fields lim pos var_gate_volatility example_limits_def)
  moreover have "\<not> fst (check_order (var_gate_engine 30) (example_order ''AAPL'' True 10))"
    using C1_check_order_accepts_iff
      [of "var_gate_engine 30" "example_order ''AAPL'' True 10"]
    by (simp add: example_order_fields lim pos var_gate_volatility example_limits_def)
  ultimately show ?thesis
    by blast
qed

section \<open>The volatility estimate is never negative\<close>

lemma sum_and_squares_eq:
  "sum_and_squares rs (a, b) = (a + sum_list rs, b + sum_list (map (\<lambda>r. r * r) rs))"
  by (induction rs arbitrary: a b) simp_all





section \<open>Risk monotonicity\<close>





section \<open>What the pre-trade check writes\<close>

text \<open>
  Claim C9. \<^verbatim>\<open>check_order\<close> leaves the limits and the risk metrics as they were.
  Every position tracker that existed is unchanged, with its position, vwap,
  realised and unrealised PnL and recent trades, and so is every volatility
  calculator, with its price and return history. The only entries that can
  differ are those of the order's symbol, where a missing position tracker may
  have been created with every field zero and no trade, and a missing volatility
  calculator may have been created empty.
\<close>

theorem C9_check_order_frame:
  "risk_limits (snd (check_order rm ord)) = risk_limits rm \<and>
   risk_metrics (snd (check_order rm ord)) = risk_metrics rm \<and>
   (\<forall>s. positions (snd (check_order rm ord)) s = positions rm s \<or>
        (s = symbol ord \<and> positions rm s = None \<and>
         positions (snd (check_order rm ord)) s = Some PositionTracker_default)) \<and>
   (\<forall>s. volatility_calculators (snd (check_order rm ord)) s = volatility_calculators rm s \<or>
        (s = symbol ord \<and> volatility_calculators rm s = None \<and>
         volatility_calculators (snd (check_order rm ord)) s =
           Some VolatilityCalculator_default))"
  by (auto simp: check_order_def positions_at_def calculate_var_95_def
      calculate_expected_shortfall_def volatility_calculators_at_def Let_def
      split: option.splits prod.splits if_splits)

section \<open>Post-trade update on closing and crossing trades\<close>

lemma update_position_tracker:
  "positions (update_position rm s trade) s =
     Some (let pos = (case positions rm s of None \<Rightarrow> PositionTracker_default | Some p \<Rightarrow> p);
               new_pos = (if trade_is_buy trade
                          then position pos + real (trade_quantity trade)
                          else position pos - real (trade_quantity trade));
               new_vwap = (vwap pos * (new_pos - real (trade_quantity trade)) +
                           trade_price trade * real (trade_quantity trade)) / new_pos
           in pos\<lparr>position := new_pos, vwap := new_vwap,
                  unrealized_pnl := (trade_price trade - new_vwap) * new_pos,
                  recent_trades := trim_recent_trades (recent_trades pos @ [trade])\<rparr>)"
  by (simp add: update_position_def positions_at_def risk_metrics_at_def
      volatility_calculators_at_def Let_def split: option.splits)

text \<open>
  Claim C2 on two trades against a long position of 10 held at a vwap of 100.
  A sale of 5 at 110 reduces the position to 5 without crossing zero: the source
  moves the vwap to 110 and leaves \<open>realized_pnl\<close> at 0, where the claim keeps the
  vwap at 100 and realises 50. A sale of 15 at 110 crosses to -5: the source sets
  the vwap to 70, where the claim re-seeds it at the trade price 110.
\<close>

theorem C2_update_position_closing_trade:
  "map_option (\<lambda>p. (position p, vwap p, realized_pnl p))
     (positions (update_position (engine_with_position 10) ''AAPL''
                   (example_trade False 5 110)) ''AAPL'')
     = Some (5, 110, 0)
   \<and> map_option (\<lambda>p. (position p, vwap p, realized_pnl p))
       (positions (update_position (engine_with_position 10) ''AAPL''
                     (example_trade False 15 110)) ''AAPL'')
       = Some (- 5, 70, 0)"
  by (simp add: update_position_tracker engine_with_position_def example_trade_def
      PositionTracker_default_def Let_def)

section \<open>The market maker's volatility estimator\<close>


lemma upt_3: "[0..<3] = [0, 1, 2]"
  by (simp add: eval_nat_numeral)

lemma upt_4: "[0..<4] = [0, 1, 2, 3]"
  by (simp add: eval_nat_numeral)

lemma sqrt_2500: "sqrt 2500 = 50"
proof -
  have "sqrt 2500 = sqrt (50\<^sup>2)" by simp
  also have "\<dots> = 50" by (simp only: real_sqrt_abs)
  finally show ?thesis .
qed

lemma mixed_estimator_update:
  "VolatilityEstimator_update mixed_estimator 100 =
     \<lparr>est_returns = [100, 0, 100], est_window_size = 0, current_volatility = 50\<rparr>"
  by (simp add: VolatilityEstimator_update_def mixed_estimator_def sqrt_2500)

lemma calculate_volatility_formula:
  "calculate_volatility vc =
     (if length (returns vc) < 2 then 0
      else sqrt (sum_list (map (\<lambda>r. r * r) (returns vc)) / real (length (returns vc))
                 - (sum_list (returns vc) / real (length (returns vc)))\<^sup>2))"
  by (simp add: calculate_volatility_def sum_and_squares_eq Let_def power2_eq_square)

text \<open>
  Claim C8 on three quotes with a mid price of 100, whose log-returns are both 0.
  The risk engine's calculator, with a window of 3, holds the returns \<open>[0, 0]\<close> and
  reports 0. The market maker's estimator, created with a window of 0, pushes each
  price into the deque it keeps its returns in: after the second price the deque
  is \<open>[0, 100]\<close>, after the third it is \<open>[100, 0, 100]\<close>, the statistic was taken
  over the price 100 and the return 0, and the volatility it reports is 50 where
  the standard deviation of the log-returns is 0.
\<close>

theorem C8_maker_estimator_mixes_prices:
  "fold (\<lambda>p est. VolatilityEstimator_update est p) [100, 100] VolatilityEstimator_default =
     mixed_estimator
   \<and> fold (\<lambda>p est. VolatilityEstimator_update est p) [100, 100, 100]
       VolatilityEstimator_default =
       \<lparr>est_returns = [100, 0, 100], est_window_size = 0, current_volatility = 50\<rparr>
   \<and> returns (fold (\<lambda>p vc. VolatilityCalculator_update vc p) [100, 100, 100]
                \<lparr>price_history = [], returns = [], window_size = 3\<rparr>) = [0, 0]
   \<and> calculate_volatility
       (fold (\<lambda>p vc. VolatilityCalculator_update vc p) [100, 100, 100]
          \<lparr>price_history = [], returns = [], window_size = 3\<rparr>) = 0"
proof -
  have two: "fold (\<lambda>p est. VolatilityEstimator_update est p) [100, 100]
               VolatilityEstimator_default = mixed_estimator"
    by (simp add: VolatilityEstimator_update_def VolatilityEstimator_default_def
        mixed_estimator_def)
  have three: "fold (\<lambda>p est. VolatilityEstimator_update est p) [100, 100, 100]
                 VolatilityEstimator_default =
               VolatilityEstimator_update
                 (fold (\<lambda>p est. VolatilityEstimator_update est p) [100, 100]
                    VolatilityEstimator_default) 100"
    by simp
  have calc: "fold (\<lambda>p vc. VolatilityCalculator_update vc p) [100, 100, 100]
                \<lparr>price_history = [], returns = [], window_size = 3\<rparr> =
              \<lparr>price_history = [100, 100, 100], returns = [0, 0], window_size = 3\<rparr>"
    by (simp add: VolatilityCalculator_update_def)
  show ?thesis
    unfolding three two mixed_estimator_update calc
    by (simp add: calculate_volatility_def)
qed

section \<open>The orders one call of update_quotes emits\<close>

lemma RiskManager_check_order_fst:
  "fst (RiskManager_check_order rm ord) =
     risk_accepts rm (symbol ord) (is_buy ord) (quantity ord)"
  by (simp add: RiskManager_check_order_def risk_accepts_def Let_def split: option.splits)

lemma RiskManager_check_order_snd:
  "risk_accepts (snd (RiskManager_check_order rm ord)) s b q = risk_accepts rm s b q"
  by (simp add: RiskManager_check_order_def risk_accepts_def Let_def split: option.splits)

lemma submit_maker_order_emitted:
  assumes "- 1 < sz" "sz < 2 ^ 64"
  shows "\<exists>mm'. submit_maker_order clock mm s b p sz = Some mm' \<and>
           map order_terms (emitted mm' s) =
             map order_terms (emitted mm s) @
             filter (\<lambda>(b', p', q'). risk_accepts (risk_manager mm) s b' q') [(b, p, nat \<lfloor>sz\<rfloor>)] \<and>
           (\<forall>s' b' q'. risk_accepts (risk_manager mm') s' b' q' =
                        risk_accepts (risk_manager mm) s' b' q')"
proof -
  let ?mm1 = "mm\<lparr>order_counter := (order_counter mm + 1) mod 2 ^ 64\<rparr>"
  let ?ord = "\<lparr>order_id = ''MM_'' @ to_string (order_counter mm), symbol = s, price = p,
               quantity = nat \<lfloor>sz\<rfloor>, is_buy = b, timestamp = clock ?mm1, status = []\<rparr>"
  obtain ok rm' where chk: "RiskManager_check_order (risk_manager mm) ?ord = (ok, rm')"
    by (cases "RiskManager_check_order (risk_manager mm) ?ord")
  have ok: "ok = risk_accepts (risk_manager mm) s b (nat \<lfloor>sz\<rfloor>)"
    using RiskManager_check_order_fst [of "risk_manager mm" ?ord] chk by simp
  have rm': "risk_accepts rm' s' b' q' = risk_accepts (risk_manager mm) s' b' q'" for s' b' q'
    using RiskManager_check_order_snd [of "risk_manager mm" ?ord s' b' q'] chk by simp
  show ?thesis
    using assms chk ok rm'
    by (simp add: submit_maker_order_def double_to_size_t_def generate_order_id_def
        emitted_def order_terms_def Let_def)
qed

lemma quote_level_emitted:
  assumes "- 1 < base_size params level" "base_size params level < 2 ^ 64"
  shows "\<exists>mm'. quote_level clock s params ir adj mid level mm = Some mm' \<and>
           map order_terms (emitted mm' s) =
             map order_terms (emitted mm s) @
             filter (\<lambda>(b', p', q'). risk_accepts (risk_manager mm) s b' q')
               [(True, bid_price params ir adj mid level, nat \<lfloor>base_size params level\<rfloor>),
                (False, ask_price params ir adj mid level, nat \<lfloor>base_size params level\<rfloor>)] \<and>
           (\<forall>s' b' q'. risk_accepts (risk_manager mm') s' b' q' =
                        risk_accepts (risk_manager mm) s' b' q')"
proof -
  obtain mm1 where 1: "submit_maker_order clock mm s True (bid_price params ir adj mid level)
                         (base_size params level) = Some mm1"
    and e1: "map order_terms (emitted mm1 s) =
             map order_terms (emitted mm s) @
             filter (\<lambda>(b', p', q'). risk_accepts (risk_manager mm) s b' q')
               [(True, bid_price params ir adj mid level, nat \<lfloor>base_size params level\<rfloor>)]"
    and r1: "\<And>s' b' q'. risk_accepts (risk_manager mm1) s' b' q' =
                        risk_accepts (risk_manager mm) s' b' q'"
    using submit_maker_order_emitted [OF assms, of clock mm s True] by blast
  obtain mm2 where 2: "submit_maker_order clock mm1 s False (ask_price params ir adj mid level)
                         (base_size params level) = Some mm2"
    and e2: "map order_terms (emitted mm2 s) =
             map order_terms (emitted mm1 s) @
             filter (\<lambda>(b', p', q'). risk_accepts (risk_manager mm1) s b' q')
               [(False, ask_price params ir adj mid level, nat \<lfloor>base_size params level\<rfloor>)]"
    and r2: "\<And>s' b' q'. risk_accepts (risk_manager mm2) s' b' q' =
                        risk_accepts (risk_manager mm1) s' b' q'"
    using submit_maker_order_emitted [OF assms, of clock mm1 s False] by blast
  show ?thesis
    using 1 2 e1 e2 r1 r2 by (simp add: quote_level_def)
qed

lemma quote_levels_emitted:
  assumes "\<forall>level < n. - 1 < base_size params level \<and> base_size params level < 2 ^ 64"
  shows "\<exists>mm'. fold (\<lambda>level r. case r of None \<Rightarrow> None
                        | Some m \<Rightarrow> quote_level clock s params ir adj mid level m)
                  [0..<n] (Some mm) = Some mm' \<and>
           map order_terms (emitted mm' s) =
             map order_terms (emitted mm s) @
             filter (\<lambda>(b', p', q'). risk_accepts (risk_manager mm) s b' q')
               (ladder params ir adj mid n) \<and>
           (\<forall>s' b' q'. risk_accepts (risk_manager mm') s' b' q' =
                        risk_accepts (risk_manager mm) s' b' q')"
  using assms
proof (induction n)
  case 0
  then show ?case by (simp add: ladder_def)
next
  case (Suc n)
  have "\<forall>level < n. - 1 < base_size params level \<and> base_size params level < 2 ^ 64"
    using Suc.prems by simp
  from Suc.IH [OF this] obtain mm1 where
    f: "fold (\<lambda>level r. case r of None \<Rightarrow> None
                        | Some m \<Rightarrow> quote_level clock s params ir adj mid level m)
                  [0..<n] (Some mm) = Some mm1"
    and e1: "map order_terms (emitted mm1 s) =
             map order_terms (emitted mm s) @
             filter (\<lambda>(b', p', q'). risk_accepts (risk_manager mm) s b' q')
               (ladder params ir adj mid n)"
    and r1: "\<And>s' b' q'. risk_accepts (risk_manager mm1) s' b' q' =
                        risk_accepts (risk_manager mm) s' b' q'"
    by blast
  have b: "- 1 < base_size params n" "base_size params n < 2 ^ 64"
    using Suc.prems by simp_all
  obtain mm2 where q: "quote_level clock s params ir adj mid n mm1 = Some mm2"
    and e2: "map order_terms (emitted mm2 s) =
             map order_terms (emitted mm1 s) @
             filter (\<lambda>(b', p', q'). risk_accepts (risk_manager mm1) s b' q')
               [(True, bid_price params ir adj mid n, nat \<lfloor>base_size params n\<rfloor>),
                (False, ask_price params ir adj mid n, nat \<lfloor>base_size params n\<rfloor>)]"
    and r2: "\<And>s' b' q'. risk_accepts (risk_manager mm2) s' b' q' =
                        risk_accepts (risk_manager mm1) s' b' q'"
    using quote_level_emitted [OF b, of clock s ir adj mid mm1] by blast
  show ?case
    using f q e1 e2 r1 r2 by (simp add: ladder_def)
qed

lemma base_size_in_range:
  assumes "0 \<le> base_position_size params" "base_position_size params < 2 ^ 64"
  shows "- 1 < base_size params level \<and> base_size params level < 2 ^ 64"
proof -
  have "base_position_size params / 2 ^ level \<le> base_position_size params / 1"
    using assms(1) by (intro divide_left_mono) simp_all
  then have le: "base_size params level \<le> base_position_size params"
    by (simp add: base_size_def)
  have nonneg: "0 \<le> base_size params level"
    using assms(1) by (simp add: base_size_def)
  have "- 1 < base_size params level"
    using nonneg by linarith
  moreover have "base_size params level < 2 ^ 64"
    using le assms(2) by linarith
  ultimately show ?thesis by blast
qed

lemma update_quotes_emitted:
  assumes "symbol_params mm s = Some params"
    and "0 \<le> base_position_size params" "base_position_size params < 2 ^ 64"
  shows "\<exists>mm'. update_quotes clock mm s q = Some mm' \<and>
           map order_terms (emitted mm' s) =
             filter (\<lambda>(b', p', q'). risk_accepts (risk_manager mm) s b' q')
               (ladder params (inventory_ratio_of mm s params)
                  (adjusted_spread_of mm s params q) ((bid q + ask q) / 2) (levels params))"
proof -
  let ?metrics = "case inventory mm s of None \<Rightarrow> InventoryMetrics_default | Some m \<Rightarrow> m"
  let ?est' = "VolatilityEstimator_update
                 (case volatility_estimators mm s of
                    None \<Rightarrow> VolatilityEstimator_default | Some e \<Rightarrow> e)
                 ((bid q + ask q) / 2)"
  let ?mm1 = "mm\<lparr>inventory := (inventory mm)(s \<mapsto> ?metrics),
                  volatility_estimators := (volatility_estimators mm)(s \<mapsto> ?est')\<rparr>"
  let ?mm2 = "cancel_existing_orders ?mm1 s"
  have ir: "current_position ?metrics / base_position_size params = inventory_ratio_of mm s params"
    by (simp add: inventory_ratio_of_def inventory_position_def InventoryMetrics_default_def
        split: option.splits)
  have adj: "spread_percentage params *
               (1 + inventory_ratio_of mm s params * inventory_skew_factor params *
                    current_volatility ?est') = adjusted_spread_of mm s params q"
    by (simp add: adjusted_spread_of_def updated_volatility_def)
  have e0: "emitted ?mm2 s = []"
    by (simp add: cancel_existing_orders_def emitted_def split: option.splits)
  have r0: "risk_manager ?mm2 = risk_manager mm"
    by (simp add: cancel_existing_orders_def split: option.splits)
  have rng: "\<forall>level < levels params.
               - 1 < base_size params level \<and> base_size params level < 2 ^ 64"
    using base_size_in_range [OF assms(2,3)] by simp
  from quote_levels_emitted [OF rng, of clock s "inventory_ratio_of mm s params"
         "adjusted_spread_of mm s params q" "(bid q + ask q) / 2" ?mm2]
  show ?thesis
    unfolding update_quotes_def assms(1) option.case Let_def ir adj e0 r0
    by auto
qed

lemma ladder_bids:
  "map f (filter (\<lambda>(b, p, q). b) (filter (\<lambda>(b, p, q). A b q) (ladder params ir adj mid n))) =
     map (\<lambda>l. f (True, bid_price params ir adj mid l, nat \<lfloor>base_size params l\<rfloor>))
       (filter (\<lambda>l. A True (nat \<lfloor>base_size params l\<rfloor>)) [0..<n])"
  by (induction n) (simp_all add: ladder_def)

lemma ladder_asks:
  "map f (filter (\<lambda>(b, p, q). \<not> b) (filter (\<lambda>(b, p, q). A b q) (ladder params ir adj mid n))) =
     map (\<lambda>l. f (False, ask_price params ir adj mid l, nat \<lfloor>base_size params l\<rfloor>))
       (filter (\<lambda>l. A False (nat \<lfloor>base_size params l\<rfloor>)) [0..<n])"
  by (induction n) (simp_all add: ladder_def)

lemma order_terms_bids:
  "map g (filter is_buy os) = map g' (filter (\<lambda>(b, p, q). b) (map order_terms os))"
  if "\<And>ord. g ord = g' (order_terms ord)"
  using that by (induction os) (simp_all add: order_terms_def)

lemma order_terms_asks:
  "map g (filter (\<lambda>ord. \<not> is_buy ord) os) =
     map g' (filter (\<lambda>(b, p, q). \<not> b) (map order_terms os))"
  if "\<And>ord. g ord = g' (order_terms ord)"
  using that by (induction os) (simp_all add: order_terms_def)

lemma update_quotes_sides:
  assumes "symbol_params mm s = Some params"
    and "0 \<le> base_position_size params" "base_position_size params < 2 ^ 64"
  shows "\<exists>mm'. update_quotes clock mm s q = Some mm' \<and>
           map price (filter is_buy (emitted mm' s)) =
             map (bid_price params (inventory_ratio_of mm s params)
                    (adjusted_spread_of mm s params q) ((bid q + ask q) / 2))
               (filter (\<lambda>l. risk_accepts (risk_manager mm) s True (nat \<lfloor>base_size params l\<rfloor>))
                  [0..<levels params]) \<and>
           map price (filter (\<lambda>ord. \<not> is_buy ord) (emitted mm' s)) =
             map (ask_price params (inventory_ratio_of mm s params)
                    (adjusted_spread_of mm s params q) ((bid q + ask q) / 2))
               (filter (\<lambda>l. risk_accepts (risk_manager mm) s False (nat \<lfloor>base_size params l\<rfloor>))
                  [0..<levels params]) \<and>
           map quantity (filter is_buy (emitted mm' s)) =
             map (\<lambda>l. nat \<lfloor>base_size params l\<rfloor>)
               (filter (\<lambda>l. risk_accepts (risk_manager mm) s True (nat \<lfloor>base_size params l\<rfloor>))
                  [0..<levels params]) \<and>
           map quantity (filter (\<lambda>ord. \<not> is_buy ord) (emitted mm' s)) =
             map (\<lambda>l. nat \<lfloor>base_size params l\<rfloor>)
               (filter (\<lambda>l. risk_accepts (risk_manager mm) s False (nat \<lfloor>base_size params l\<rfloor>))
                  [0..<levels params])"
proof -
  from update_quotes_emitted [OF assms, of clock q] obtain mm' where
    uq: "update_quotes clock mm s q = Some mm'" and
    em: "map order_terms (emitted mm' s) =
           filter (\<lambda>(b', p', q'). risk_accepts (risk_manager mm) s b' q')
             (ladder params (inventory_ratio_of mm s params)
                (adjusted_spread_of mm s params q) ((bid q + ask q) / 2) (levels params))"
    by blast
  have 1: "map price (filter is_buy (emitted mm' s)) =
           map (fst \<circ> snd) (filter (\<lambda>(b, p, q). b) (map order_terms (emitted mm' s)))"
    by (rule order_terms_bids) (simp add: order_terms_def)
  have 2: "map price (filter (\<lambda>ord. \<not> is_buy ord) (emitted mm' s)) =
           map (fst \<circ> snd) (filter (\<lambda>(b, p, q). \<not> b) (map order_terms (emitted mm' s)))"
    by (rule order_terms_asks) (simp add: order_terms_def)
  have 3: "map quantity (filter is_buy (emitted mm' s)) =
           map (snd \<circ> snd) (filter (\<lambda>(b, p, q). b) (map order_terms (emitted mm' s)))"
    by (rule order_terms_bids) (simp add: order_terms_def)
  have 4: "map quantity (filter (\<lambda>ord. \<not> is_buy ord) (emitted mm' s)) =
           map (snd \<circ> snd) (filter (\<lambda>(b, p, q). \<not> b) (map order_terms (emitted mm' s)))"
    by (rule order_terms_asks) (simp add: order_terms_def)
  have "map price (filter is_buy (emitted mm' s)) =
          map (bid_price params (inventory_ratio_of mm s params)
                 (adjusted_spread_of mm s params q) ((bid q + ask q) / 2))
            (filter (\<lambda>l. risk_accepts (risk_manager mm) s True (nat \<lfloor>base_size params l\<rfloor>))
               [0..<levels params])"
    unfolding 1 em ladder_bids by simp
  moreover have "map price (filter (\<lambda>ord. \<not> is_buy ord) (emitted mm' s)) =
          map (ask_price params (inventory_ratio_of mm s params)
                 (adjusted_spread_of mm s params q) ((bid q + ask q) / 2))
            (filter (\<lambda>l. risk_accepts (risk_manager mm) s False (nat \<lfloor>base_size params l\<rfloor>))
               [0..<levels params])"
    unfolding 2 em ladder_asks by simp
  moreover have "map quantity (filter is_buy (emitted mm' s)) =
          map (\<lambda>l. nat \<lfloor>base_size params l\<rfloor>)
            (filter (\<lambda>l. risk_accepts (risk_manager mm) s True (nat \<lfloor>base_size params l\<rfloor>))
               [0..<levels params])"
    unfolding 3 em ladder_bids by simp
  moreover have "map quantity (filter (\<lambda>ord. \<not> is_buy ord) (emitted mm' s)) =
          map (\<lambda>l. nat \<lfloor>base_size params l\<rfloor>)
            (filter (\<lambda>l. risk_accepts (risk_manager mm) s False (nat \<lfloor>base_size params l\<rfloor>))
               [0..<levels params])"
    unfolding 4 em ladder_asks by simp
  ultimately show ?thesis
    using uq by blast
qed

subsection \<open>The scenario states\<close>

lemma maker_state_facts:
  "symbol_params (maker_state params pos ests) ''AAPL'' = Some params"
  "inventory_position (maker_state params pos ests) ''AAPL'' = pos"
  "risk_accepts (risk_manager (maker_state params pos ests)) ''AAPL'' b n \<longleftrightarrow> n \<le> 1000"
  "volatility_estimators (maker_state params pos ests) = ests"
  by (simp_all add: maker_state_def inventory_position_def InventoryMetrics_default_def
      risk_accepts_def)

lemma example_params_fields:
  "base_position_size (example_params n k) = 100" "levels (example_params n k) = n"
  "spread_percentage (example_params n k) = 1 / 1000"
  "inventory_skew_factor (example_params n k) = k"
  by (simp_all add: example_params_def)

lemma first_quote_volatility:
  "updated_volatility (maker_state params pos Map.empty) ''AAPL'' q = 0"
  by (simp add: updated_volatility_def maker_state_facts VolatilityEstimator_default_def
      VolatilityEstimator_update_def)


lemma maker_state_accepts_all:
  assumes "0 \<le> base_position_size params" "base_position_size params \<le> 1000"
  shows "filter (\<lambda>l. risk_accepts (risk_manager (maker_state params pos ests)) ''AAPL'' b
                  (nat \<lfloor>base_size params l\<rfloor>)) [0..<n] = [0..<n]"
proof -
  have "nat \<lfloor>base_size params l\<rfloor> \<le> 1000" for l
  proof -
    have "base_position_size params / 2 ^ l \<le> base_position_size params / 1"
      using assms(1) by (intro divide_left_mono) simp_all
    then have "base_size params l \<le> 1000"
      using assms(2) by (simp add: base_size_def)
    then show ?thesis
      by (simp add: nat_le_iff floor_le_iff)
  qed
  then show ?thesis
    by (simp add: maker_state_facts)
qed

lemma maker_state_ladder:
  assumes "0 \<le> base_position_size params" "base_position_size params \<le> 1000"
  shows "map price (filter is_buy (emitted (the (update_quotes clock
            (maker_state params pos ests) ''AAPL'' q)) ''AAPL'')) =
           map (bid_price params (pos / base_position_size params)
                  (adjusted_spread_of (maker_state params pos ests) ''AAPL'' params q)
                  ((bid q + ask q) / 2)) [0..<levels params]"
    and "map price (filter (\<lambda>ord. \<not> is_buy ord) (emitted (the (update_quotes clock
            (maker_state params pos ests) ''AAPL'' q)) ''AAPL'')) =
           map (ask_price params (pos / base_position_size params)
                  (adjusted_spread_of (maker_state params pos ests) ''AAPL'' params q)
                  ((bid q + ask q) / 2)) [0..<levels params]"
    and "map quantity (filter is_buy (emitted (the (update_quotes clock
            (maker_state params pos ests) ''AAPL'' q)) ''AAPL'')) =
           map (\<lambda>l. nat \<lfloor>base_size params l\<rfloor>) [0..<levels params]"
proof -
  let ?mm = "maker_state params pos ests"
  have params: "symbol_params ?mm ''AAPL'' = Some params"
    by (rule maker_state_facts)
  have "(1000::real) < 2 ^ 64"
    by simp
  then have size: "base_position_size params < 2 ^ 64"
    using assms(2) by linarith
  have ir: "inventory_ratio_of ?mm ''AAPL'' params = pos / base_position_size params"
    by (simp add: inventory_ratio_of_def maker_state_facts)
  note acc = maker_state_accepts_all [OF assms, of pos ests]
  from update_quotes_sides [OF params assms(1) size, of clock q] obtain mm' where
    uq: "update_quotes clock ?mm ''AAPL'' q = Some mm'" and
    b: "map price (filter is_buy (emitted mm' ''AAPL'')) =
          map (bid_price params (pos / base_position_size params)
                 (adjusted_spread_of ?mm ''AAPL'' params q) ((bid q + ask q) / 2))
            [0..<levels params]" and
    a: "map price (filter (\<lambda>ord. \<not> is_buy ord) (emitted mm' ''AAPL'')) =
          map (ask_price params (pos / base_position_size params)
                 (adjusted_spread_of ?mm ''AAPL'' params q) ((bid q + ask q) / 2))
            [0..<levels params]" and
    qb: "map quantity (filter is_buy (emitted mm' ''AAPL'')) =
          map (\<lambda>l. nat \<lfloor>base_size params l\<rfloor>) [0..<levels params]"
    unfolding ir acc by (elim exE conjE)
  show "map price (filter is_buy (emitted (the (update_quotes clock ?mm ''AAPL'' q)) ''AAPL'')) =
           map (bid_price params (pos / base_position_size params)
                  (adjusted_spread_of ?mm ''AAPL'' params q)
                  ((bid q + ask q) / 2)) [0..<levels params]"
    unfolding uq option.sel by (rule b)
  show "map price (filter (\<lambda>ord. \<not> is_buy ord)
            (emitted (the (update_quotes clock ?mm ''AAPL'' q)) ''AAPL'')) =
           map (ask_price params (pos / base_position_size params)
                  (adjusted_spread_of ?mm ''AAPL'' params q)
                  ((bid q + ask q) / 2)) [0..<levels params]"
    unfolding uq option.sel by (rule a)
  show "map quantity (filter is_buy (emitted (the (update_quotes clock ?mm ''AAPL'' q)) ''AAPL'')) =
           map (\<lambda>l. nat \<lfloor>base_size params l\<rfloor>) [0..<levels params]"
    unfolding uq option.sel by (rule qb)
qed

section \<open>Order sizes\<close>

text \<open>
  Claim C7, as the claim states it, fails on the orders in two ways. With a base
  size of 100 and four levels the size computed for level 3 is 12.5, and the bid
  orders emitted carry the quantities 100, 50, 25 and 12. With a base size of 1600,
  three levels and a risk manager that allows positions up to 1000, the bid of
  level 0 is refused and the bid orders emitted carry 800 and 400.
\<close>

theorem C7_order_sizes_counterexample:
  "map quantity (filter is_buy (emitted (the (update_quotes example_clock
       (maker_state (example_params 4 0) 0 Map.empty) ''AAPL'' (example_quote 99.95 100.05)))
     ''AAPL'')) = [100, 50, 25, 12]
   \<and> base_size (example_params 4 0) 3 = 25 / 2
   \<and> map quantity (filter is_buy (emitted (the (update_quotes example_clock
         (maker_state (sized_params 1600 3) 0 Map.empty) ''AAPL''
         (example_quote 99.95 100.05))) ''AAPL'')) = [800, 400]"
proof -
  have er: "0 \<le> base_position_size (example_params 4 0)"
    "base_position_size (example_params 4 0) \<le> 1000"
    by (simp_all add: example_params_fields)
  have sizes: "map (\<lambda>l. nat \<lfloor>base_size (example_params 4 0) l\<rfloor>) [0..<4] = [100, 50, 25, 12]"
    by (simp add: upt_4 base_size_def example_params_fields)
  from maker_state_ladder(3) [OF er, of example_clock 0 Map.empty "example_quote 99.95 100.05"]
  have trunc: "map quantity (filter is_buy (emitted (the (update_quotes example_clock
          (maker_state (example_params 4 0) 0 Map.empty) ''AAPL''
          (example_quote 99.95 100.05))) ''AAPL'')) = [100, 50, 25, 12]"
    unfolding example_params_fields sizes .
  have half: "base_size (example_params 4 0) 3 = 25 / 2"
    by (simp add: base_size_def example_params_fields)
  let ?p = "sized_params 1600 3"
  let ?mm = "maker_state ?p 0 Map.empty"
  have sf: "base_position_size ?p = 1600" "levels ?p = 3"
    by (simp_all add: sized_params_def)
  have params: "symbol_params ?mm ''AAPL'' = Some ?p"
    by (rule maker_state_facts)
  have size: "0 \<le> base_position_size ?p" "base_position_size ?p < 2 ^ 64"
    by (simp_all add: sf)
  have gated: "map (\<lambda>l. nat \<lfloor>base_size ?p l\<rfloor>)
                 (filter (\<lambda>l. risk_accepts (risk_manager ?mm) ''AAPL'' True
                                 (nat \<lfloor>base_size ?p l\<rfloor>)) [0..<levels ?p]) = [800, 400]"
    by (simp add: maker_state_facts sf upt_3 base_size_def)
  from update_quotes_sides [OF params size, of example_clock "example_quote 99.95 100.05"]
  obtain mm' where
    uq: "update_quotes example_clock ?mm ''AAPL'' (example_quote 99.95 100.05) = Some mm'" and
    q: "map quantity (filter is_buy (emitted mm' ''AAPL'')) = [800, 400]"
    unfolding gated by (elim exE conjE)
  have gate: "map quantity (filter is_buy (emitted (the (update_quotes example_clock ?mm ''AAPL''
                (example_quote 99.95 100.05))) ''AAPL'')) = [800, 400]"
    unfolding uq option.sel by (rule q)
  show ?thesis
    using trunc half gate by (intro conjI)
qed

text \<open>
  Claim C7, amended. For a configured symbol whose base size \<open>b\<close> is a \<^verbatim>\<open>size_t\<close>
  value (\<open>0 \<le> b < 2\<^sup>6\<^sup>4\<close>), one call of \<^verbatim>\<open>update_quotes\<close> computes the size
  \<open>b / 2\<^sup>l\<close> for level \<open>l\<close> and emits, on the bid side and on the ask side, one
  order for each level \<open>l = 0, ..., levels - 1\<close> whose order passes the risk check,
  in level order, carrying that size with its fraction dropped, \<open>\<lfloor>b / 2\<^sup>l\<rfloor>\<close>. For a
  base size of 100, three levels and every order passing, the sizes are 100, 50
  and 25 on each side.
\<close>

theorem C7_order_sizes_truncated:
  assumes "symbol_params mm s = Some params"
    and "0 \<le> base_position_size params" "base_position_size params < 2 ^ 64"
  shows "\<exists>mm'. update_quotes clock mm s q = Some mm' \<and>
           map quantity (filter is_buy (emitted mm' s)) =
             map (\<lambda>l. nat \<lfloor>base_position_size params / 2 ^ l\<rfloor>)
               (filter (\<lambda>l. risk_accepts (risk_manager mm) s True
                               (nat \<lfloor>base_position_size params / 2 ^ l\<rfloor>))
                  [0..<levels params]) \<and>
           map quantity (filter (\<lambda>ord. \<not> is_buy ord) (emitted mm' s)) =
             map (\<lambda>l. nat \<lfloor>base_position_size params / 2 ^ l\<rfloor>)
               (filter (\<lambda>l. risk_accepts (risk_manager mm) s False
                               (nat \<lfloor>base_position_size params / 2 ^ l\<rfloor>))
                  [0..<levels params])"
  using update_quotes_sides [OF assms, of clock q]
  unfolding base_size_def by blast

theorem C7_order_sizes_truncated_witness:
  "map quantity (filter is_buy (emitted (the (update_quotes example_clock
       (maker_state (example_params 3 0) 0 Map.empty) ''AAPL'' (example_quote 99.95 100.05)))
     ''AAPL'')) = [100, 50, 25]
   \<and> map quantity (filter (\<lambda>ord. \<not> is_buy ord) (emitted (the (update_quotes example_clock
       (maker_state (example_params 3 0) 0 Map.empty) ''AAPL'' (example_quote 99.95 100.05)))
     ''AAPL'')) = [100, 50, 25]"
proof -
  let ?p = "example_params 3 0"
  let ?mm = "maker_state ?p 0 Map.empty"
  let ?q = "example_quote 99.95 100.05"
  have params: "symbol_params ?mm ''AAPL'' = Some ?p"
    by (rule maker_state_facts)
  have size: "0 \<le> base_position_size ?p" "base_position_size ?p < 2 ^ 64"
    by (simp_all add: example_params_fields)
  have acc: "filter (\<lambda>l. risk_accepts (risk_manager ?mm) ''AAPL'' b
                         (nat \<lfloor>base_position_size ?p / 2 ^ l\<rfloor>)) [0..<levels ?p] =
               [0..<levels ?p]" for b
    using maker_state_accepts_all [of ?p 0 Map.empty b "levels ?p"]
    by (simp add: base_size_def example_params_fields)
  have sizes: "map (\<lambda>l. nat \<lfloor>base_position_size ?p / 2 ^ l\<rfloor>) [0..<levels ?p] = [100, 50, 25]"
    by (simp add: upt_3 example_params_fields)
  from C7_order_sizes_truncated [OF params size, of example_clock ?q] obtain mm' where
    uq: "update_quotes example_clock ?mm ''AAPL'' ?q = Some mm'" and
    b: "map quantity (filter is_buy (emitted mm' ''AAPL'')) = [100, 50, 25]" and
    a: "map quantity (filter (\<lambda>ord. \<not> is_buy ord) (emitted mm' ''AAPL'')) = [100, 50, 25]"
    unfolding acc sizes by (elim exE conjE)
  show ?thesis
    unfolding uq option.sel using a b by (intro conjI)
qed

section \<open>Inventory skew\<close>

text \<open>
  Claim C6, as the claim states it, fails on the direction of the shift. In
  scenario S2 (position +50, skew factor 0.2, mid price 100, no volatility yet)
  the source computes an inventory ratio of 0.5 and an adjusted spread of 0.001,
  and at level 0 a bid of 109.9 and an ask of 110.1 before rounding, where the
  flat-inventory ladder has 99.9 and 100.1: both are 10 above the flat prices,
  not 10 below them.
\<close>

theorem C6_inventory_skew_counterexample:
  "bid_raw (example_params 3 (2 / 10))
     (inventory_ratio_of (maker_state (example_params 3 (2 / 10)) 50 Map.empty) ''AAPL''
        (example_params 3 (2 / 10)))
     (adjusted_spread_of (maker_state (example_params 3 (2 / 10)) 50 Map.empty) ''AAPL''
        (example_params 3 (2 / 10)) (example_quote 99.95 100.05))
     ((bid (example_quote 99.95 100.05) + ask (example_quote 99.95 100.05)) / 2) 0 = 109.9
   \<and> bid_raw (example_params 3 (2 / 10)) 0 (1 / 1000) 100 0 = 99.9
   \<and> ask_raw (example_params 3 (2 / 10))
       (inventory_ratio_of (maker_state (example_params 3 (2 / 10)) 50 Map.empty) ''AAPL''
          (example_params 3 (2 / 10)))
       (adjusted_spread_of (maker_state (example_params 3 (2 / 10)) 50 Map.empty) ''AAPL''
          (example_params 3 (2 / 10)) (example_quote 99.95 100.05))
       ((bid (example_quote 99.95 100.05) + ask (example_quote 99.95 100.05)) / 2) 0 = 110.1
   \<and> ask_raw (example_params 3 (2 / 10)) 0 (1 / 1000) 100 0 = 100.1"
  by (simp add: inventory_ratio_of_def adjusted_spread_of_def maker_state_facts
      first_quote_volatility example_params_fields)
     (simp add: bid_raw_def ask_raw_def level_multiplier_def example_params_def
        example_quote_def)

text \<open>
  Claim C6, amended. In scenario S2 (the S1 parameters with skew factor 0.2, a
  position of +50, a first quote with mid price 100 and so a volatility of 0),
  \<^verbatim>\<open>update_quotes\<close> computes an inventory ratio of 0.5 and an adjusted spread of
  0.001, and at every level the bid and the ask before rounding lie above those of
  the flat-inventory ladder by \<open>mid * 0.5 * 0.2 = 10\<close>. The orders it emits are
  bids at 109.90, 109.85, 109.80 and asks at 110.10, 110.15, 110.20.
\<close>

theorem C6_inventory_skew_shifts_up:
  "inventory_ratio_of (maker_state (example_params 3 (2 / 10)) 50 Map.empty) ''AAPL''
     (example_params 3 (2 / 10)) = 1 / 2
   \<and> adjusted_spread_of (maker_state (example_params 3 (2 / 10)) 50 Map.empty) ''AAPL''
       (example_params 3 (2 / 10)) (example_quote 99.95 100.05) = 1 / 1000
   \<and> (\<forall>level.
        bid_raw (example_params 3 (2 / 10)) (1 / 2) (1 / 1000) 100 level =
          bid_raw (example_params 3 (2 / 10)) 0 (1 / 1000) 100 level + 100 * (1 / 2) * (2 / 10) \<and>
        ask_raw (example_params 3 (2 / 10)) (1 / 2) (1 / 1000) 100 level =
          ask_raw (example_params 3 (2 / 10)) 0 (1 / 1000) 100 level + 100 * (1 / 2) * (2 / 10))
   \<and> (100::real) * (1 / 2) * (2 / 10) = 10
   \<and> map price (filter is_buy (emitted (the (update_quotes example_clock
         (maker_state (example_params 3 (2 / 10)) 50 Map.empty) ''AAPL''
         (example_quote 99.95 100.05))) ''AAPL'')) = [109.9, 109.85, 109.8]
   \<and> map price (filter (\<lambda>ord. \<not> is_buy ord) (emitted (the (update_quotes example_clock
         (maker_state (example_params 3 (2 / 10)) 50 Map.empty) ''AAPL''
         (example_quote 99.95 100.05))) ''AAPL'')) = [110.1, 110.15, 110.2]"
proof -
  let ?p = "example_params 3 (2 / 10)"
  let ?mm = "maker_state ?p 50 Map.empty"
  let ?q = "example_quote 99.95 100.05"
  have ir: "inventory_ratio_of ?mm ''AAPL'' ?p = 1 / 2"
    by (simp add: inventory_ratio_of_def maker_state_facts example_params_fields)
  have adj: "adjusted_spread_of ?mm ''AAPL'' ?p ?q = 1 / 1000"
    by (simp add: adjusted_spread_of_def first_quote_volatility example_params_fields)
  have mid: "(bid ?q + ask ?q) / 2 = 100"
    by (simp add: example_quote_def)
  have raw: "bid_raw ?p (1 / 2) (1 / 1000) 100 level =
               bid_raw ?p 0 (1 / 1000) 100 level + 100 * (1 / 2) * (2 / 10) \<and>
             ask_raw ?p (1 / 2) (1 / 1000) 100 level =
               ask_raw ?p 0 (1 / 1000) 100 level + 100 * (1 / 2) * (2 / 10)" for level
    by (simp add: bid_raw_def ask_raw_def example_params_def algebra_simps)
  have bp: "map (bid_price ?p (50 / 100) (1 / 1000) 100) [0..<3] = [109.9, 109.85, 109.8]"
    by (simp add: upt_3 example_params_def bid_price_def bid_raw_def level_multiplier_def
        round_to_tick_def std_round_def)
  have ap: "map (ask_price ?p (50 / 100) (1 / 1000) 100) [0..<3] = [110.1, 110.15, 110.2]"
    by (simp add: upt_3 example_params_def ask_price_def ask_raw_def level_multiplier_def
        round_to_tick_def std_round_def)
  have er: "0 \<le> base_position_size ?p" "base_position_size ?p \<le> 1000"
    by (simp_all add: example_params_fields)
  from maker_state_ladder(1) [OF er, of example_clock 50 Map.empty ?q]
  have b: "map price (filter is_buy (emitted (the (update_quotes example_clock ?mm ''AAPL'' ?q))
             ''AAPL'')) = [109.9, 109.85, 109.8]"
    unfolding example_params_fields adj mid bp .
  from maker_state_ladder(2) [OF er, of example_clock 50 Map.empty ?q]
  have a: "map price (filter (\<lambda>ord. \<not> is_buy ord)
             (emitted (the (update_quotes example_clock ?mm ''AAPL'' ?q)) ''AAPL'')) =
           [110.1, 110.15, 110.2]"
    unfolding example_params_fields adj mid ap .
  have "(100::real) * (1 / 2) * (2 / 10) = 10"
    by simp
  then show ?thesis
    using ir adj raw a b by blast
qed

section \<open>Ordering of the quote ladder\<close>















end
